theory Spec2Isabelle
  imports Complex_Main "HOL-Library.Sublist"
begin

section \<open>Optical model potential parameters (hieroglyph/potentials.py)\<close>

text \<open>
  The module holds five formula functions, each filling a dictionary of sixteen
  optical model parameters in place, a registry \<open>POTENTIALS\<close> from keyword to
  formula, and the entry point \<open>create_parameters\<close>.

  Conventions of the embedding.
  \<^item> A Python \<open>float\<close> is a \<^typ>\<open>real\<close>: arithmetic is exact. Rounding, overflow
    (\<open>OverflowError\<close>), infinities and NaN are not represented.
  \<^item> A Python \<open>int\<close> is an \<^typ>\<open>int\<close>; where the source mixes it with a float it is
    converted with \<^const>\<open>real_of_int\<close>.
  \<^item> A negative \<open>at\<close> under a fractional exponent makes \<open>at ** 0.333\<close> a Python
    \<open>complex\<close>, and the formula goes on computing with it. So a value stored in the
    dictionary is a \<open>float\<close> or a \<open>complex\<close>: the type \<open>pyval\<close>. Subexpressions built
    from \<open>E\<close>, \<open>zt\<close>, \<open>at\<close> and literals alone are floats and are written in real
    arithmetic; those that \<open>a3\<close> (or \<open>rc\<close>, \<open>vc\<close>, a dictionary read) flows into are
    written with the operations on \<open>pyval\<close>.
  \<^item> The dictionary \<open>params\<close> is a map from key to value. A formula mutates it in place,
    so a formula is a function from the dictionary before the call to the dictionary
    after the call, paired with the exception that ended the call (if any): the
    assignments made before a raise stay in the dictionary.
  \<^item> Every operation of the source that can raise is a function into a sum type,
    \<open>Inl\<close> the exception.
\<close>

subsection \<open>Errors\<close>

text \<open>
  \<open>Exception msg\<close> is the \<open>raise Exception(...)\<close> of \<open>create_parameters\<close>;
  \<open>ZeroDivisionError\<close>, \<open>ValueError\<close> and \<open>KeyError\<close> are raised by Python's
  division and power, by \<open>math.sqrt\<close> and by a dictionary read.
\<close>

datatype error =
    Exception string
  | ZeroDivisionError
  | ValueError
  | KeyError string

subsection \<open>Values\<close>

datatype pyval = PyFloat (float_value: real) | PyComplex (complex_value: complex)

type_synonym params = "string \<rightharpoonup> pyval"

text \<open>
  \<open>+\<close>, \<open>-\<close> and \<open>*\<close>: a float meeting a complex is converted to a complex, and the
  result is a complex even when its imaginary part is zero.
\<close>

instantiation pyval :: "{plus, minus, times}"
begin

fun plus_pyval :: "pyval \<Rightarrow> pyval \<Rightarrow> pyval" where
  "plus_pyval (PyFloat x) (PyFloat y) = PyFloat (x + y)"
| "plus_pyval (PyFloat x) (PyComplex w) = PyComplex (complex_of_real x + w)"
| "plus_pyval (PyComplex z) (PyFloat y) = PyComplex (z + complex_of_real y)"
| "plus_pyval (PyComplex z) (PyComplex w) = PyComplex (z + w)"

fun minus_pyval :: "pyval \<Rightarrow> pyval \<Rightarrow> pyval" where
  "minus_pyval (PyFloat x) (PyFloat y) = PyFloat (x - y)"
| "minus_pyval (PyFloat x) (PyComplex w) = PyComplex (complex_of_real x - w)"
| "minus_pyval (PyComplex z) (PyFloat y) = PyComplex (z - complex_of_real y)"
| "minus_pyval (PyComplex z) (PyComplex w) = PyComplex (z - w)"

fun times_pyval :: "pyval \<Rightarrow> pyval \<Rightarrow> pyval" where
  "times_pyval (PyFloat x) (PyFloat y) = PyFloat (x * y)"
| "times_pyval (PyFloat x) (PyComplex w) = PyComplex (complex_of_real x * w)"
| "times_pyval (PyComplex z) (PyFloat y) = PyComplex (z * complex_of_real y)"
| "times_pyval (PyComplex z) (PyComplex w) = PyComplex (z * w)"

instance ..

end

subsection \<open>Python's operations that can raise\<close>

text \<open>\<open>x / y\<close> on two floats (or a float and an int) raises on a zero divisor.\<close>

definition py_div :: "real \<Rightarrow> real \<Rightarrow> error + real" where
  "py_div x y = (if y = 0 then Inl ZeroDivisionError else Inr (x / y))"

text \<open>
  \<open>x / y\<close> where an operand may be complex: it raises on a zero divisor (a float
  \<open>0.0\<close> or a complex \<open>0j\<close>) as well.
\<close>

fun py_truediv :: "pyval \<Rightarrow> pyval \<Rightarrow> error + pyval" where
  "py_truediv (PyFloat x) (PyFloat y) =
     (if y = 0 then Inl ZeroDivisionError else Inr (PyFloat (x / y)))"
| "py_truediv (PyFloat x) (PyComplex w) =
     (if w = 0 then Inl ZeroDivisionError else Inr (PyComplex (complex_of_real x / w)))"
| "py_truediv (PyComplex z) (PyFloat y) =
     (if y = 0 then Inl ZeroDivisionError else Inr (PyComplex (z / complex_of_real y)))"
| "py_truediv (PyComplex z) (PyComplex w) =
     (if w = 0 then Inl ZeroDivisionError else Inr (PyComplex (z / w)))"

text \<open>
  The complex power of a negative real base \<open>x\<close> under a real exponent \<open>y\<close>, as the
  interpreter computes it: modulus \<open>|x| ** y\<close> and phase \<open>atan2(0, x) * y = pi * y\<close>.
\<close>

definition c_pow :: "real \<Rightarrow> real \<Rightarrow> complex" where
  "c_pow x y = Complex (\<bar>x\<bar> powr y * cos (pi * y)) (\<bar>x\<bar> powr y * sin (pi * y))"

text \<open>
  \<open>x ** y\<close> with a float exponent, used by the source on the int \<open>at\<close> with the
  exponents \<open>0.333\<close>, \<open>1.0 / 3.0\<close>, \<open>-0.666\<close> and \<open>-1.666\<close>. Anything to the power
  zero is one; zero to a negative power raises; a negative base with a fractional
  exponent gives a complex number; with an integral exponent the power is the
  repeated product.
  (For the integral exponents \<open>2\<close>, \<open>2.0\<close> and \<open>3.0\<close> of the source, which are applied
  to floats and defined for every base, the formulas below write \<open>x\<^sup>2\<close> and \<open>x ^ 3\<close>
  directly.)
\<close>

definition py_pow :: "real \<Rightarrow> real \<Rightarrow> error + pyval" where
  "py_pow x y =
     (if y = 0 then Inr (PyFloat 1)
      else if x = 0 then (if y < 0 then Inl ZeroDivisionError else Inr (PyFloat 0))
      else if 0 < x then Inr (PyFloat (x powr y))
      else if y = real_of_int \<lfloor>y\<rfloor>
           then (if 0 \<le> y then Inr (PyFloat (x ^ nat \<lfloor>y\<rfloor>))
                 else Inr (PyFloat (1 / x ^ nat (- \<lfloor>y\<rfloor>))))
      else Inr (PyComplex (c_pow x y)))"

text \<open>\<open>math.sqrt\<close> of a float raises \<open>ValueError\<close> (math domain error) below zero.\<close>

definition py_sqrt :: "real \<Rightarrow> error + real" where
  "py_sqrt x = (if x < 0 then Inl ValueError else Inr (sqrt x))"

text \<open>\<open>params[k]\<close> as an expression raises \<open>KeyError\<close> on a missing key.\<close>

definition py_get :: "params \<Rightarrow> string \<Rightarrow> error + pyval" where
  "py_get p k = (case p k of None \<Rightarrow> Inl (KeyError k) | Some v \<Rightarrow> Inr v)"

subsection \<open>Sequencing\<close>

text \<open>The value of a subexpression, or the exception it raised.\<close>

definition bind_res :: "error + 'a \<Rightarrow> ('a \<Rightarrow> error + 'b) \<Rightarrow> error + 'b" where
  "bind_res m f = (case m of Inl e \<Rightarrow> Inl e | Inr x \<Rightarrow> f x)"

text \<open>
  A local variable of a formula: its right-hand side is evaluated before the rest
  of the body runs; if it raises, the dictionary is left as it is.
\<close>

definition local_var ::
  "error + 'a \<Rightarrow> ('a \<Rightarrow> params \<Rightarrow> params \<times> error option) \<Rightarrow> params \<Rightarrow> params \<times> error option"
where
  "local_var m body p = (case m of Inl e \<Rightarrow> (p, Some e) | Inr x \<Rightarrow> body x p)"

text \<open>
  A run of assignments \<open>params[k] = rhs\<close>, in order. Each right-hand side sees the
  dictionary as the earlier assignments left it. The first one that raises ends
  the run, with the earlier assignments in place.
\<close>

fun assign_all ::
  "(string \<times> (params \<Rightarrow> error + pyval)) list \<Rightarrow> params \<Rightarrow> params \<times> error option"
where
  "assign_all [] p = (p, None)"
| "assign_all ((k, rhs) # rest) p =
     (case rhs p of
        Inl e \<Rightarrow> (p, Some e)
      | Inr v \<Rightarrow> assign_all rest (p(k \<mapsto> v)))"

subsection \<open>The five formulas\<close>

text \<open>Keyword for each potential.\<close>

definition AN_CAI :: string where "AN_CAI = ''an-cai''"
definition DAEHNICK :: string where "DAEHNICK = ''daehnick''"
definition BOJOWALD :: string where "BOJOWALD = ''bojowald''"
definition KONING_DELAROCHE_PROTON :: string where
  "KONING_DELAROCHE_PROTON = ''koning-delaroche-proton''"
definition LI_LIANG_CAI_TRITON :: string where
  "LI_LIANG_CAI_TRITON = ''li-liang-cai-triton''"

text \<open>\<open>an_cai_potential\<close>: \<open>1.116e-4\<close> is written \<open>0.0001116\<close>.\<close>

definition an_cai_potential :: "real \<Rightarrow> int \<Rightarrow> int \<Rightarrow> params \<Rightarrow> params \<times> error option" where
  "an_cai_potential E zt at' =
     local_var (py_pow (real_of_int at') 0.333) (\<lambda>a3.
     assign_all
      [(''V'', \<lambda>p. bind_res (py_truediv (PyFloat (0.642 * real_of_int zt)) a3) (\<lambda>q.
                 Inr (PyFloat (91.85 - 0.249 * E + 0.0001116 * E\<^sup>2) + q))),
       (''Vi'', \<lambda>p. Inr (PyFloat (1.104 + 0.0622 * E))),
       (''Vsi'', \<lambda>p. Inr (PyFloat (10.83 - 0.0306 * E))),
       (''Vso'', \<lambda>p. Inr (PyFloat 3.557)),
       (''Vsoi'', \<lambda>p. Inr (PyFloat 0.0)),
       (''r0'', \<lambda>p. bind_res (py_truediv (PyFloat 0.00776) a3) (\<lambda>q. Inr (PyFloat 1.152 - q))),
       (''ri0'', \<lambda>p. bind_res (py_truediv (PyFloat 0.0997) a3) (\<lambda>q. Inr (PyFloat 1.305 + q))),
       (''rsi0'', \<lambda>p. bind_res (py_truediv (PyFloat 0.152) a3) (\<lambda>q. Inr (PyFloat 1.334 + q))),
       (''rso0'', \<lambda>p. Inr (PyFloat 0.972)),
       (''rsoi0'', \<lambda>p. Inr (PyFloat 0.0)),
       (''rc0'', \<lambda>p. Inr (PyFloat 1.303)),
       (''a'', \<lambda>p. Inr (PyFloat 0.719 + PyFloat 0.0126 * a3)),
       (''ai'', \<lambda>p. Inr (PyFloat 0.855 - PyFloat 0.1 * a3)),
       (''asi'', \<lambda>p. Inr (PyFloat 0.531 + PyFloat 0.062 * a3)),
       (''aso'', \<lambda>p. Inr (PyFloat 1.011)),
       (''asoi'', \<lambda>p. Inr (PyFloat 0.0))])"

text \<open>\<open>daehnick_potential\<close>, with its six Gaussians \<open>mu1\<close> .. \<open>mu6\<close>.\<close>

definition daehnick_potential :: "real \<Rightarrow> int \<Rightarrow> int \<Rightarrow> params \<Rightarrow> params \<times> error option" where
  "daehnick_potential E zt at' =
     (let nt = at' - zt in
      local_var (py_pow (real_of_int at') 0.333) (\<lambda>a3.
      let beta = - 1.0 * (E * 0.01)\<^sup>2;
          mu1 = exp (- 1.0 * ((8.0 - real_of_int nt) * 0.5)\<^sup>2);
          mu2 = exp (- 1.0 * ((20.0 - real_of_int nt) * 0.5)\<^sup>2);
          mu3 = exp (- 1.0 * ((28.0 - real_of_int nt) * 0.5)\<^sup>2);
          mu4 = exp (- 1.0 * ((50.0 - real_of_int nt) * 0.5)\<^sup>2);
          mu5 = exp (- 1.0 * ((82.0 - real_of_int nt) * 0.5)\<^sup>2);
          mu6 = exp (- 1.0 * ((126.0 - real_of_int nt) * 0.5)\<^sup>2);
          mu = mu1 + mu2 + mu3 + mu4 + mu5 + mu6
      in
      assign_all
       [(''V'', \<lambda>p. bind_res (py_truediv (PyFloat (0.88 * real_of_int zt)) a3) (\<lambda>q.
                  Inr (PyFloat (88.0 - 0.283 * E) + q))),
        (''Vi'', \<lambda>p. Inr (PyFloat ((12.0 + 0.031 * E) * (1.0 - exp beta)))),
        (''Vsi'', \<lambda>p. Inr (PyFloat ((12.0 + 0.031 * E) * (exp beta)))),
        (''Vso'', \<lambda>p. Inr (PyFloat (7.2 - 0.032 * E))),
        (''Vsoi'', \<lambda>p. Inr (PyFloat 0.0)),
        (''r0'', \<lambda>p. Inr (PyFloat 1.17)),
        (''ri0'', \<lambda>p. bind_res (py_sqrt E) (\<lambda>s. Inr (PyFloat (1.376 - 0.01 * s)))),
        (''rsi0'', \<lambda>p. bind_res (py_sqrt E) (\<lambda>s. Inr (PyFloat (1.376 - 0.01 * s)))),
        (''rso0'', \<lambda>p. Inr (PyFloat 1.07)),
        (''rsoi0'', \<lambda>p. Inr (PyFloat 0.0)),
        (''rc0'', \<lambda>p. Inr (PyFloat 1.3)),
        (''a'', \<lambda>p. Inr (PyFloat (0.717 + 0.0012 * E))),
        (''ai'', \<lambda>p. Inr (PyFloat 0.52 + PyFloat 0.07 * a3 - PyFloat (0.04 * mu))),
        (''asi'', \<lambda>p. Inr (PyFloat 0.52 + PyFloat 0.07 * a3 - PyFloat (0.04 * mu))),
        (''aso'', \<lambda>p. Inr (PyFloat 0.66)),
        (''asoi'', \<lambda>p. Inr (PyFloat 0.0))]))"

text \<open>\<open>bojowald_potential\<close>: the right-hand side of \<open>Vsi\<close> reads \<open>params["Vi"]\<close>.\<close>

definition bojowald_potential :: "real \<Rightarrow> int \<Rightarrow> int \<Rightarrow> params \<Rightarrow> params \<times> error option" where
  "bojowald_potential E zt at' =
     local_var (py_pow (real_of_int at') 0.333) (\<lambda>a3.
     assign_all
      [(''V'', \<lambda>p. bind_res (py_truediv (PyFloat (1.43 * real_of_int zt)) a3) (\<lambda>q.
                 Inr (PyFloat (81.33 - 0.24 * E) + q))),
       (''Vi'', \<lambda>p. Inr (PyFloat (if E > 45.0 then 0.132 * (E - 45.0) else 0.0))),
       (''Vsi'', \<lambda>p. bind_res (py_get p ''Vi'') (\<lambda>vi.
                   Inr (PyFloat 7.8 + PyFloat 1.04 * a3 - PyFloat 0.712 * vi))),
       (''Vso'', \<lambda>p. Inr (PyFloat 6.0)),
       (''Vsoi'', \<lambda>p. Inr (PyFloat 0.0)),
       (''r0'', \<lambda>p. Inr (PyFloat 1.18)),
       (''ri0'', \<lambda>p. Inr (PyFloat 1.27)),
       (''rsi0'', \<lambda>p. Inr (PyFloat 1.27)),
       (''rso0'', \<lambda>p. Inr (PyFloat 0.78 + PyFloat 0.038 * a3)),
       (''rsoi0'', \<lambda>p. Inr (PyFloat 0.0)),
       (''rc0'', \<lambda>p. Inr (PyFloat 1.3)),
       (''a'', \<lambda>p. Inr (PyFloat 0.636 + PyFloat 0.035 * a3)),
       (''ai'', \<lambda>p. Inr (PyFloat 0.768 + PyFloat 0.021 * a3)),
       (''asi'', \<lambda>p. Inr (PyFloat 0.768 + PyFloat 0.021 * a3)),
       (''aso'', \<lambda>p. Inr (PyFloat 0.78 + PyFloat 0.038 * a3)),
       (''asoi'', \<lambda>p. Inr (PyFloat 0.0))])"

text \<open>
  \<open>koning_delaroche_proton_potential\<close>. Scientific literals written out:
  \<open>4.23e-6\<close>, \<open>1.729e-5\<close>, \<open>1.136e-8\<close>, \<open>7.0e-9\<close>, \<open>1.487e-4\<close>, \<open>5.205e-4\<close>.
  The right-hand sides of \<open>ri0\<close> and \<open>rsoi0\<close> read \<open>params["r0"]\<close> and
  \<open>params["rso0"]\<close>. The locals \<open>rc\<close> and \<open>vc\<close> are built from powers of \<open>at\<close> and
  from \<open>a3\<close>, so they are values that may be complex.
\<close>

definition koning_delaroche_proton_potential ::
  "real \<Rightarrow> int \<Rightarrow> int \<Rightarrow> params \<Rightarrow> params \<times> error option"
where
  "koning_delaroche_proton_potential E zt at' =
     (let nt = at' - zt in
      local_var (py_pow (real_of_int at') 0.333) (\<lambda>a3.
      local_var (py_div (21.0 * real_of_int (nt - zt)) (real_of_int at')) (\<lambda>q1.
      let v1 = 59.30 + q1 - 0.024 * real_of_int at';
          v2 = 0.007067 + 0.00000423 * real_of_int at';
          v3 = 0.00001729 + 0.00000001136 * real_of_int at';
          v4 = 0.000000007;
          w1 = 14.667 + 0.009629 * real_of_int at';
          w2 = 73.55 + 0.0795 * real_of_int at'
      in
      local_var (py_div (16.0 * real_of_int (nt - zt)) (real_of_int at')) (\<lambda>q2.
      let d1 = 16.0 + q2 in
      local_var (py_div 0.003802 (1.0 + exp ((real_of_int at' - 156.0) / 8.0))) (\<lambda>q3.
      let d2 = 0.0180 + q3;
          d3 = 11.5;
          vso1 = 5.922 + 0.0030 * real_of_int at';
          vso2 = 0.0040;
          wso1 = - 3.1;
          wso2 = 160;
          ef = - 8.4075 + 0.01378 * real_of_int at'
      in
      local_var (py_pow (real_of_int at') (- 0.666)) (\<lambda>pw1.
      local_var (py_pow (real_of_int at') (- 1.666)) (\<lambda>pw2.
      let rc = PyFloat 1.198 + PyFloat 0.697 * pw1 + PyFloat 12.994 * pw2 in
      local_var (py_truediv (PyFloat 1.73) rc) (\<lambda>q4.
      let vc = q4 * PyFloat (real_of_int zt) * a3;
          delta_e = E - ef
      in
      assign_all
       [(''V'', \<lambda>p. Inr (PyFloat (v1 * (1.0 - v2 * delta_e + v3 * delta_e\<^sup>2 - v4 * delta_e ^ 3))
                         + vc * PyFloat v1
                             * PyFloat (v2 - 2.0 * v3 * delta_e + 3.0 * v4 * delta_e\<^sup>2))),
        (''Vi'', \<lambda>p. bind_res (py_div (w1 * delta_e\<^sup>2) (delta_e\<^sup>2 + w2\<^sup>2)) (\<lambda>q.
                   Inr (PyFloat q))),
        (''Vsi'', \<lambda>p. bind_res (py_div (d1 * delta_e\<^sup>2) (delta_e\<^sup>2 + d3\<^sup>2)) (\<lambda>q.
                    Inr (PyFloat (q * exp (- 1.0 * d2 * delta_e))))),
        (''Vso'', \<lambda>p. Inr (PyFloat (vso1 * exp (- 1.0 * vso2 * delta_e)))),
        (''Vsoi'', \<lambda>p. bind_res (py_div (wso1 * delta_e\<^sup>2) (delta_e\<^sup>2 + wso2\<^sup>2)) (\<lambda>q.
                     Inr (PyFloat q))),
        (''r0'', \<lambda>p. bind_res (py_truediv (PyFloat 0.4054) a3) (\<lambda>q. Inr (PyFloat 1.3039 - q))),
        (''ri0'', \<lambda>p. py_get p ''r0''),
        (''rsi0'', \<lambda>p. Inr (PyFloat 1.3424 - PyFloat 0.01585 * a3)),
        (''rso0'', \<lambda>p. bind_res (py_truediv (PyFloat 0.647) a3) (\<lambda>q. Inr (PyFloat 1.1854 - q))),
        (''rsoi0'', \<lambda>p. py_get p ''rso0''),
        (''rc0'', \<lambda>p. Inr rc),
        (''a'', \<lambda>p. Inr (PyFloat (0.6778 - 0.0001487 * real_of_int at'))),
        (''ai'', \<lambda>p. Inr (PyFloat (0.6778 - 0.0001487 * real_of_int at'))),
        (''asi'', \<lambda>p. Inr (PyFloat (0.5187 + 0.0005205 * real_of_int at'))),
        (''aso'', \<lambda>p. Inr (PyFloat 0.59)),
        (''asoi'', \<lambda>p. Inr (PyFloat 0.59))]))))))))"

text \<open>
  \<open>li_liang_cai_triton_potential\<close>: the exponent of \<open>a3\<close> is \<open>1.0 / 3.0\<close>, and the
  assignments run in the order of the source (\<open>V\<close>, \<open>r0\<close>, \<open>a\<close>, \<open>Vi\<close>, ...).
\<close>

definition li_liang_cai_triton_potential ::
  "real \<Rightarrow> int \<Rightarrow> int \<Rightarrow> params \<Rightarrow> params \<times> error option"
where
  "li_liang_cai_triton_potential E zt at' =
     (let nt = at' - zt in
      local_var (py_pow (real_of_int at') (1.0 / 3.0)) (\<lambda>a3.
      assign_all
       [(''V'', \<lambda>p. bind_res (py_div (4.3751 * real_of_int (nt - zt)) (real_of_int at')) (\<lambda>q1.
                  bind_res (py_truediv (PyFloat (1.0474 * real_of_int zt)) a3) (\<lambda>q2.
                  Inr (PyFloat (137.6 - 0.1456 * E + 0.0436 * E\<^sup>2 + q1) + q2)))),
        (''r0'', \<lambda>p. bind_res (py_truediv (PyFloat 0.1504) a3) (\<lambda>q. Inr (PyFloat 1.1201 - q))),
        (''a'', \<lambda>p. Inr (PyFloat 0.6833 + PyFloat 0.0191 * a3)),
        (''Vi'', \<lambda>p. Inr (PyFloat (7.383 + 0.5025 * E - 0.0097 * E\<^sup>2))),
        (''ri0'', \<lambda>p. bind_res (py_truediv (PyFloat 0.1776) a3) (\<lambda>q. Inr (PyFloat 1.3202 - q))),
        (''ai'', \<lambda>p. Inr (PyFloat 1.119 + PyFloat 0.01913 * a3)),
        (''Vsi'', \<lambda>p. bind_res (py_div (47.19 * real_of_int (nt - zt)) (real_of_int at')) (\<lambda>q.
                    Inr (PyFloat (37.06 - 0.6451 * E - q)))),
        (''rsi0'', \<lambda>p. bind_res (py_truediv (PyFloat 0.4622) a3) (\<lambda>q. Inr (PyFloat 1.251 - q))),
        (''asi'', \<lambda>p. Inr (PyFloat 0.8114 + PyFloat 0.01159 * a3)),
        (''Vso'', \<lambda>p. Inr (PyFloat 1.9029)),
        (''rso0'', \<lambda>p. bind_res (py_truediv (PyFloat 0.1294) a3) (\<lambda>q. Inr (PyFloat 0.46991 + q))),
        (''aso'', \<lambda>p. Inr (PyFloat 0.3545 - PyFloat 0.0522 * a3)),
        (''Vsoi'', \<lambda>p. Inr (PyFloat 0.0)),
        (''rsoi0'', \<lambda>p. Inr (PyFloat 0.0)),
        (''asoi'', \<lambda>p. Inr (PyFloat 0.0)),
        (''rc0'', \<lambda>p. Inr (PyFloat 1.422))]))"

subsection \<open>Registry and dispatch\<close>

text \<open>
  The dictionary connecting each keyword to its formula, as an association list in
  insertion order (the order \<open>POTENTIALS.keys()\<close> prints).
\<close>

definition POTENTIALS ::
  "(string \<times> (real \<Rightarrow> int \<Rightarrow> int \<Rightarrow> params \<Rightarrow> params \<times> error option)) list"
where
  "POTENTIALS =
     [(AN_CAI, an_cai_potential),
      (DAEHNICK, daehnick_potential),
      (BOJOWALD, bojowald_potential),
      (KONING_DELAROCHE_PROTON, koning_delaroche_proton_potential),
      (LI_LIANG_CAI_TRITON, li_liang_cai_triton_potential)]"

text \<open>
  The text of \<open>POTENTIALS.keys()\<close> inside the f-string:
  \<open>dict_keys(['an-cai', 'daehnick', ...])\<close>. The \<open>repr\<close> of a string without quotes or
  escapes is the string between single quotes (character \<open>0x27\<close>).
\<close>

definition py_repr_str :: "string \<Rightarrow> string" where
  "py_repr_str s = CHR 0x27 # s @ [CHR 0x27]"

fun join_with :: "string \<Rightarrow> string list \<Rightarrow> string" where
  "join_with sep [] = []"
| "join_with sep [x] = x"
| "join_with sep (x # y # ys) = x @ sep @ join_with sep (y # ys)"

definition repr_dict_keys :: "string list \<Rightarrow> string" where
  "repr_dict_keys ks = ''dict_keys(['' @ join_with '', '' (map py_repr_str ks) @ ''])''"

definition unknown_potential_message :: "string \<Rightarrow> string" where
  "unknown_potential_message potential =
     ''Potential '' @ potential @ '' is not in the set of allowed Potentials ''
       @ repr_dict_keys (map fst POTENTIALS) @ ''!''"

text \<open>The sixteen keys of the dictionary literal of \<open>create_parameters\<close>, in its order.\<close>

definition param_keys :: "string list" where
  "param_keys =
     [''V'', ''Vi'', ''Vsi'', ''Vso'', ''Vsoi'', ''r0'', ''ri0'', ''rsi0'', ''rso0'',
      ''rsoi0'', ''rc0'', ''a'', ''ai'', ''asi'', ''aso'', ''asoi'']"

definition zero_params :: params where
  "zero_params = map_of (map (\<lambda>k. (k, PyFloat 0.0)) param_keys)"

text \<open>
  \<open>create_parameters\<close>: the membership test, the zero-filled dictionary, the lookup
  \<open>POTENTIALS[potential]\<close> (which would raise \<open>KeyError\<close> on a missing key) and the call.
  An exception raised by the formula propagates, and the dictionary is then not
  returned.
\<close>

definition create_parameters :: "real \<Rightarrow> int \<Rightarrow> int \<Rightarrow> string \<Rightarrow> error + params" where
  "create_parameters E zt at' potential =
     (if potential \<notin> set (map fst POTENTIALS)
      then Inl (Exception (unknown_potential_message potential))
      else
        (let params = zero_params in
         case map_of POTENTIALS potential of
           None \<Rightarrow> Inl (KeyError potential)
         | Some formula \<Rightarrow>
             (case formula E zt at' params of
                (params', None) \<Rightarrow> Inr params'
              | (params', Some e) \<Rightarrow> Inl e)))"

subsection \<open>An output as a function of the energy\<close>

text \<open>
  The number that the call \<open>formula(E, zt, at, params)\<close> on the zero-filled dictionary
  leaves under the key \<open>k\<close>, read as a function of \<open>E\<close> with the target held fixed.
  It is used for the targets on which that value is a float.
\<close>

definition output_in_energy ::
  "(real \<Rightarrow> int \<Rightarrow> int \<Rightarrow> params \<Rightarrow> params \<times> error option) \<Rightarrow> int \<Rightarrow> int \<Rightarrow> string \<Rightarrow> real \<Rightarrow> real"
where
  "output_in_energy formula zt at' k E = float_value (the (fst (formula E zt at' zero_params) k))"

section \<open>Running the formulas\<close>

subsection \<open>The operations on the inputs the formulas give them\<close>

lemma py_pow_pos: "0 < x \<Longrightarrow> y \<noteq> 0 \<Longrightarrow> py_pow x y = Inr (PyFloat (x powr y))"
  by (simp add: py_pow_def)

lemma py_pow_zero_pos: "0 < y \<Longrightarrow> py_pow 0 y = Inr (PyFloat 0)"
  by (simp add: py_pow_def)

lemma py_pow_neg_frac:
  "x < 0 \<Longrightarrow> y \<noteq> real_of_int \<lfloor>y\<rfloor> \<Longrightarrow> py_pow x y = Inr (PyComplex (c_pow x y))"
  by (auto simp add: py_pow_def)

lemma frac_exponents:
  "(0.333::real) \<noteq> real_of_int \<lfloor>0.333::real\<rfloor>"
  "(1.0 / 3.0::real) \<noteq> real_of_int \<lfloor>1.0 / 3.0::real\<rfloor>"
  "(- 0.666::real) \<noteq> real_of_int \<lfloor>- 0.666::real\<rfloor>"
  "(- 1.666::real) \<noteq> real_of_int \<lfloor>- 1.666::real\<rfloor>"
  by simp_all

text \<open>The complex power is never zero: its modulus is positive.\<close>

lemma c_pow_nonzero: "x \<noteq> 0 \<Longrightarrow> c_pow x y \<noteq> 0"
proof
  assume x: "x \<noteq> 0" and z: "c_pow x y = 0"
  have r: "\<bar>x\<bar> powr y \<noteq> 0"
    using x by simp
  from z have "\<bar>x\<bar> powr y * cos (pi * y) = 0" "\<bar>x\<bar> powr y * sin (pi * y) = 0"
    by (simp_all add: c_pow_def complex_eq_iff)
  with r have "cos (pi * y) = 0" "sin (pi * y) = 0"
    by simp_all
  then show False
    using sin_cos_squared_add [of "pi * y"] by simp
qed

text \<open>
  In \<open>koning-delaroche-proton\<close> the local \<open>rc\<close> is a divisor. For a positive \<open>at\<close>
  it is a positive float. For a negative \<open>at\<close> it is complex, and its imaginary part is
  \<open>sin(0.666 pi) * |at| ** (-1.666) * (12.994 - 0.697 * |at|)\<close>, which vanishes for no
  integer. The divisor \<open>delta_e**2 + w2**2\<close> needs \<open>w2 = 73.55 + 0.0795 * at\<close> to be
  nonzero, which it is for every integer.
\<close>

lemma kd_rc_pos:
  "0 < (1.198::real) + 0.697 * x powr a + 12.994 * x powr b"
  by (intro add_pos_nonneg mult_nonneg_nonneg) simp_all

lemma kd_rc_complex_nonzero:
  fixes a :: int
  assumes "a < 0"
  shows "(1.198::complex) + 0.697 * c_pow (real_of_int a) (- 0.666)
           + 12.994 * c_pow (real_of_int a) (- 1.666) \<noteq> 0"
proof
  let ?m = "\<bar>real_of_int a\<bar>"
  let ?s = "sin (pi * 0.666)"
  assume z: "(1.198::complex) + 0.697 * c_pow (real_of_int a) (- 0.666)
           + 12.994 * c_pow (real_of_int a) (- 1.666) = 0"
  have m: "0 < ?m"
    using assms by simp
  have s1: "sin (pi * (- 0.666)) = - ?s"
    by simp
  have e: "pi * 1.666 = pi * 0.666 + pi"
    by (simp add: algebra_simps)
  have "sin (pi * 1.666) = - ?s"
    by (simp only: e sin_periodic_pi)
  moreover have "sin (pi * (- 1.666)) = - sin (pi * 1.666)"
    by (simp only: mult_minus_right sin_minus)
  ultimately have s2: "sin (pi * (- 1.666)) = ?s"
    by (simp only: minus_minus)
  have "?m powr (- 1.666 + 1) = ?m powr (- 1.666) * ?m powr 1"
    by (rule powr_add)
  then have p: "?m powr (- 0.666) = ?m powr (- 1.666) * ?m"
    using m by simp
  have spos: "0 < ?s"
    by (intro sin_gt_zero) (simp_all add: pi_gt_zero)
  have ppos: "0 < ?m powr (- 1.666)"
    using m by simp
  from z have "Im ((1.198::complex) + 0.697 * c_pow (real_of_int a) (- 0.666)
           + 12.994 * c_pow (real_of_int a) (- 1.666)) = 0"
    by simp
  then have "0.697 * (?m powr (- 0.666) * sin (pi * (- 0.666)))
           + 12.994 * (?m powr (- 1.666) * sin (pi * (- 1.666))) = 0"
    by (simp add: c_pow_def)
  then have "0.697 * (?m powr (- 1.666) * ?m * (- ?s)) + 12.994 * (?m powr (- 1.666) * ?s) = 0"
    by (simp only: s1 s2 p)
  then have "(?s * ?m powr (- 1.666)) * (12.994 - 0.697 * ?m) = 0"
    by (simp add: algebra_simps)
  with spos ppos have "12.994 - 0.697 * ?m = 0"
    by simp
  then have "697 * ?m = 12994"
    by simp
  then have "real_of_int (697 * \<bar>a\<bar>) = real_of_int 12994"
    by simp
  then have "697 * \<bar>a\<bar> = 12994"
    by (simp only: of_int_eq_iff)
  then have "(697 * \<bar>a\<bar>) mod 697 = 12994 mod 697"
    by (rule arg_cong)
  then show False
    by simp
qed

lemma kd_w2_nonzero:
  fixes a :: int
  shows "(73.55::real) + 0.0795 * real_of_int a \<noteq> 0"
proof
  assume "(73.55::real) + 0.0795 * real_of_int a = 0"
  then have "real_of_int (795 * a) = real_of_int (- 735500)"
    by simp
  then have "795 * a = - 735500"
    by (simp only: of_int_eq_iff)
  then have "(795 * a) mod 795 = (- 735500) mod 795"
    by (rule arg_cong)
  then show False
    by simp
qed

subsection \<open>A positive mass number: the dictionary after the call\<close>

text \<open>
  With \<open>0 < at\<close> every division and power of the five formulas is defined and every
  value is a float. The call ends with the sixteen assignments made (for \<open>daehnick\<close>,
  when \<open>math.sqrt(E)\<close> is defined as well; otherwise it raises after six assignments).
\<close>

lemma an_cai_run:
  assumes "0 < at'"
  shows "an_cai_potential E zt at' p =
    (p(''V'' \<mapsto> PyFloat (91.85 - 0.249 * E + 0.0001116 * E\<^sup>2 + 0.642 * real_of_int zt / (real_of_int at' powr 0.333)),
       ''Vi'' \<mapsto> PyFloat (1.104 + 0.0622 * E),
       ''Vsi'' \<mapsto> PyFloat (10.83 - 0.0306 * E),
       ''Vso'' \<mapsto> PyFloat 3.557,
       ''Vsoi'' \<mapsto> PyFloat 0,
       ''r0'' \<mapsto> PyFloat (1.152 - 0.00776 / (real_of_int at' powr 0.333)),
       ''ri0'' \<mapsto> PyFloat (1.305 + 0.0997 / (real_of_int at' powr 0.333)),
       ''rsi0'' \<mapsto> PyFloat (1.334 + 0.152 / (real_of_int at' powr 0.333)),
       ''rso0'' \<mapsto> PyFloat 0.972,
       ''rsoi0'' \<mapsto> PyFloat 0,
       ''rc0'' \<mapsto> PyFloat 1.303,
       ''a'' \<mapsto> PyFloat (0.719 + 0.0126 * (real_of_int at' powr 0.333)),
       ''ai'' \<mapsto> PyFloat (0.855 - 0.1 * (real_of_int at' powr 0.333)),
       ''asi'' \<mapsto> PyFloat (0.531 + 0.062 * (real_of_int at' powr 0.333)),
       ''aso'' \<mapsto> PyFloat 1.011,
       ''asoi'' \<mapsto> PyFloat 0), None)"
  using assms
  by (simp add: an_cai_potential_def local_var_def py_pow_pos bind_res_def)

lemma daehnick_run:
  assumes "0 < at'" "0 \<le> E"
  shows "daehnick_potential E zt at' p =
    (let a3 = real_of_int at' powr 0.333;
         mu = exp (- (((8 - real_of_int (at' - zt)) * 0.5)\<^sup>2))
            + exp (- (((20 - real_of_int (at' - zt)) * 0.5)\<^sup>2))
            + exp (- (((28 - real_of_int (at' - zt)) * 0.5)\<^sup>2))
            + exp (- (((50 - real_of_int (at' - zt)) * 0.5)\<^sup>2))
            + exp (- (((82 - real_of_int (at' - zt)) * 0.5)\<^sup>2))
            + exp (- (((126 - real_of_int (at' - zt)) * 0.5)\<^sup>2))
     in
     (p(''V'' \<mapsto> PyFloat (88.0 - 0.283 * E + 0.88 * real_of_int zt / a3),
       ''Vi'' \<mapsto> PyFloat ((12.0 + 0.031 * E) * (1.0 - exp (- ((E * 0.01)\<^sup>2)))),
       ''Vsi'' \<mapsto> PyFloat ((12.0 + 0.031 * E) * exp (- ((E * 0.01)\<^sup>2))),
       ''Vso'' \<mapsto> PyFloat (7.2 - 0.032 * E),
       ''Vsoi'' \<mapsto> PyFloat 0,
       ''r0'' \<mapsto> PyFloat 1.17,
       ''ri0'' \<mapsto> PyFloat (1.376 - 0.01 * sqrt E),
       ''rsi0'' \<mapsto> PyFloat (1.376 - 0.01 * sqrt E),
       ''rso0'' \<mapsto> PyFloat 1.07,
       ''rsoi0'' \<mapsto> PyFloat 0,
       ''rc0'' \<mapsto> PyFloat 1.3,
       ''a'' \<mapsto> PyFloat (0.717 + 0.0012 * E),
       ''ai'' \<mapsto> PyFloat (0.52 + 0.07 * a3 - 0.04 * mu),
       ''asi'' \<mapsto> PyFloat (0.52 + 0.07 * a3 - 0.04 * mu),
       ''aso'' \<mapsto> PyFloat 0.66,
       ''asoi'' \<mapsto> PyFloat 0), None))"
  using assms
  by (simp add: daehnick_potential_def local_var_def py_pow_pos bind_res_def py_sqrt_def Let_def)

lemma daehnick_sqrt_raises:
  assumes "0 < at'" "E < 0"
  shows "daehnick_potential E zt at' p =
    (p(''V'' \<mapsto> PyFloat (88.0 - 0.283 * E + 0.88 * real_of_int zt / (real_of_int at' powr 0.333)),
       ''Vi'' \<mapsto> PyFloat ((12.0 + 0.031 * E) * (1.0 - exp (- ((E * 0.01)\<^sup>2)))),
       ''Vsi'' \<mapsto> PyFloat ((12.0 + 0.031 * E) * exp (- ((E * 0.01)\<^sup>2))),
       ''Vso'' \<mapsto> PyFloat (7.2 - 0.032 * E),
       ''Vsoi'' \<mapsto> PyFloat 0,
       ''r0'' \<mapsto> PyFloat 1.17), Some ValueError)"
  using assms
  by (simp add: daehnick_potential_def local_var_def py_pow_pos bind_res_def py_sqrt_def Let_def)

lemma bojowald_run:
  assumes "0 < at'"
  shows "bojowald_potential E zt at' p =
    (let a3 = real_of_int at' powr 0.333;
         vi = (if E > 45 then 0.132 * (E - 45) else 0)
     in
     (p(''V'' \<mapsto> PyFloat (81.33 - 0.24 * E + 1.43 * real_of_int zt / a3),
       ''Vi'' \<mapsto> PyFloat vi,
       ''Vsi'' \<mapsto> PyFloat (7.8 + 1.04 * a3 - 0.712 * vi),
       ''Vso'' \<mapsto> PyFloat 6.0,
       ''Vsoi'' \<mapsto> PyFloat 0,
       ''r0'' \<mapsto> PyFloat 1.18,
       ''ri0'' \<mapsto> PyFloat 1.27,
       ''rsi0'' \<mapsto> PyFloat 1.27,
       ''rso0'' \<mapsto> PyFloat (0.78 + 0.038 * a3),
       ''rsoi0'' \<mapsto> PyFloat 0,
       ''rc0'' \<mapsto> PyFloat 1.3,
       ''a'' \<mapsto> PyFloat (0.636 + 0.035 * a3),
       ''ai'' \<mapsto> PyFloat (0.768 + 0.021 * a3),
       ''asi'' \<mapsto> PyFloat (0.768 + 0.021 * a3),
       ''aso'' \<mapsto> PyFloat (0.78 + 0.038 * a3),
       ''asoi'' \<mapsto> PyFloat 0), None))"
  using assms
  by (simp add: bojowald_potential_def local_var_def py_pow_pos bind_res_def py_get_def Let_def)

lemma li_liang_run:
  assumes "0 < at'"
  shows "li_liang_cai_triton_potential E zt at' p =
    (let a3 = real_of_int at' powr (1 / 3); nt = at' - zt
     in
     (p(''V'' \<mapsto> PyFloat (137.6 - 0.1456 * E + 0.0436 * E\<^sup>2
                 + 4.3751 * real_of_int (nt - zt) / real_of_int at' + 1.0474 * real_of_int zt / a3),
        ''r0'' \<mapsto> PyFloat (1.1201 - 0.1504 / a3),
        ''a'' \<mapsto> PyFloat (0.6833 + 0.0191 * a3),
        ''Vi'' \<mapsto> PyFloat (7.383 + 0.5025 * E - 0.0097 * E\<^sup>2),
        ''ri0'' \<mapsto> PyFloat (1.3202 - 0.1776 / a3),
        ''ai'' \<mapsto> PyFloat (1.119 + 0.01913 * a3),
        ''Vsi'' \<mapsto> PyFloat (37.06 - 0.6451 * E - 47.19 * real_of_int (nt - zt) / real_of_int at'),
        ''rsi0'' \<mapsto> PyFloat (1.251 - 0.4622 / a3),
        ''asi'' \<mapsto> PyFloat (0.8114 + 0.01159 * a3),
        ''Vso'' \<mapsto> PyFloat 1.9029,
        ''rso0'' \<mapsto> PyFloat (0.46991 + 0.1294 / a3),
        ''aso'' \<mapsto> PyFloat (0.3545 - 0.0522 * a3),
        ''Vsoi'' \<mapsto> PyFloat 0,
        ''rsoi0'' \<mapsto> PyFloat 0,
        ''asoi'' \<mapsto> PyFloat 0,
        ''rc0'' \<mapsto> PyFloat 1.422), None))"
  using assms
  by (simp add: li_liang_cai_triton_potential_def local_var_def py_pow_pos bind_res_def py_div_def Let_def)

lemma koning_run:
  assumes "0 < at'"
  shows "koning_delaroche_proton_potential E zt at' p =
    (let nt = at' - zt;
         a3 = real_of_int at' powr 0.333;
         v1 = 59.30 + 21.0 * real_of_int (nt - zt) / real_of_int at' - 0.024 * real_of_int at';
         v2 = 0.007067 + 0.00000423 * real_of_int at';
         v3 = 0.00001729 + 0.00000001136 * real_of_int at';
         v4 = 0.000000007;
         w1 = 14.667 + 0.009629 * real_of_int at';
         w2 = 73.55 + 0.0795 * real_of_int at';
         d1 = 16.0 + 16.0 * real_of_int (nt - zt) / real_of_int at';
         d2 = 0.0180 + 0.003802 / (1.0 + exp ((real_of_int at' - 156.0) / 8.0));
         d3 = 11.5;
         vso1 = 5.922 + 0.0030 * real_of_int at';
         vso2 = 0.0040;
         wso1 = - 3.1;
         wso2 = 160;
         ef = - 8.4075 + 0.01378 * real_of_int at';
         rc = 1.198 + 0.697 * real_of_int at' powr (- 0.666) + 12.994 * real_of_int at' powr (- 1.666);
         vc = 1.73 / rc * real_of_int zt * a3;
         delta_e = E - ef
     in
     (p(''V'' \<mapsto> PyFloat (v1 * (1.0 - v2 * delta_e + v3 * delta_e\<^sup>2 - v4 * delta_e ^ 3)
                         + vc * v1 * (v2 - 2.0 * v3 * delta_e + 3.0 * v4 * delta_e\<^sup>2)),
        ''Vi'' \<mapsto> PyFloat (w1 * delta_e\<^sup>2 / (delta_e\<^sup>2 + w2\<^sup>2)),
        ''Vsi'' \<mapsto> PyFloat (d1 * delta_e\<^sup>2 / (delta_e\<^sup>2 + d3\<^sup>2) * exp (- 1.0 * d2 * delta_e)),
        ''Vso'' \<mapsto> PyFloat (vso1 * exp (- 1.0 * vso2 * delta_e)),
        ''Vsoi'' \<mapsto> PyFloat (wso1 * delta_e\<^sup>2 / (delta_e\<^sup>2 + wso2\<^sup>2)),
        ''r0'' \<mapsto> PyFloat (1.3039 - 0.4054 / a3),
        ''ri0'' \<mapsto> PyFloat (1.3039 - 0.4054 / a3),
        ''rsi0'' \<mapsto> PyFloat (1.3424 - 0.01585 * a3),
        ''rso0'' \<mapsto> PyFloat (1.1854 - 0.647 / a3),
        ''rsoi0'' \<mapsto> PyFloat (1.1854 - 0.647 / a3),
        ''rc0'' \<mapsto> PyFloat rc,
        ''a'' \<mapsto> PyFloat (0.6778 - 0.0001487 * real_of_int at'),
        ''ai'' \<mapsto> PyFloat (0.6778 - 0.0001487 * real_of_int at'),
        ''asi'' \<mapsto> PyFloat (0.5187 + 0.0005205 * real_of_int at'),
        ''aso'' \<mapsto> PyFloat 0.59,
        ''asoi'' \<mapsto> PyFloat 0.59), None))"
proof -
  have n1: "(1::real) + exp x \<noteq> 0" for x
    using exp_gt_zero [of x] by linarith
  have n2: "(1.198::real) + 0.697 * x powr a + 12.994 * x powr b \<noteq> 0" for x a b :: real
    using kd_rc_pos [of x a b] by simp
  have n3: "x\<^sup>2 + y\<^sup>2 \<noteq> 0" if "y \<noteq> 0" for x y :: real
    using that by (simp add: sum_power2_eq_zero_iff)
  note w2 = kd_w2_nonzero [of at']
  note n2' = n2 [of "real_of_int at'" "- 0.666" "- 1.666", simplified]
  show ?thesis
    using assms w2 n2'
    by (simp add: koning_delaroche_proton_potential_def local_var_def py_pow_pos bind_res_def
          py_div_def py_get_def Let_def n1 n3)
qed

subsection \<open>A negative mass number: the dictionary after the call\<close>

text \<open>
  With \<open>at < 0\<close> the local \<open>a3\<close> is the nonzero complex number \<open>c_pow at 0.333\<close>. The
  formulas run as before, and the values that \<open>a3\<close> flows into are complex.
\<close>

lemma an_cai_run_neg:
  assumes "at' < 0"
  shows "an_cai_potential E zt at' p =
    (let a3 = c_pow (real_of_int at') 0.333 in
     (p(''V'' \<mapsto> PyComplex (complex_of_real (91.85 - 0.249 * E + 0.0001116 * E\<^sup>2)
                         + complex_of_real (0.642 * real_of_int zt) / a3),
       ''Vi'' \<mapsto> PyFloat (1.104 + 0.0622 * E),
       ''Vsi'' \<mapsto> PyFloat (10.83 - 0.0306 * E),
       ''Vso'' \<mapsto> PyFloat 3.557,
       ''Vsoi'' \<mapsto> PyFloat 0,
       ''r0'' \<mapsto> PyComplex (1.152 - 0.00776 / a3),
       ''ri0'' \<mapsto> PyComplex (1.305 + 0.0997 / a3),
       ''rsi0'' \<mapsto> PyComplex (1.334 + 0.152 / a3),
       ''rso0'' \<mapsto> PyFloat 0.972,
       ''rsoi0'' \<mapsto> PyFloat 0,
       ''rc0'' \<mapsto> PyFloat 1.303,
       ''a'' \<mapsto> PyComplex (0.719 + 0.0126 * a3),
       ''ai'' \<mapsto> PyComplex (0.855 - 0.1 * a3),
       ''asi'' \<mapsto> PyComplex (0.531 + 0.062 * a3),
       ''aso'' \<mapsto> PyFloat 1.011,
       ''asoi'' \<mapsto> PyFloat 0), None))"
proof -
  have nz: "c_pow (real_of_int at') 0.333 \<noteq> 0"
    using assms by (intro c_pow_nonzero) simp
  show ?thesis
    using assms nz
    by (simp add: an_cai_potential_def local_var_def py_pow_neg_frac bind_res_def Let_def)
qed

lemma daehnick_run_neg:
  assumes "at' < 0" "0 \<le> E"
  shows "daehnick_potential E zt at' p =
    (let a3 = c_pow (real_of_int at') 0.333;
         mu = exp (- (((8 - real_of_int (at' - zt)) * 0.5)\<^sup>2))
            + exp (- (((20 - real_of_int (at' - zt)) * 0.5)\<^sup>2))
            + exp (- (((28 - real_of_int (at' - zt)) * 0.5)\<^sup>2))
            + exp (- (((50 - real_of_int (at' - zt)) * 0.5)\<^sup>2))
            + exp (- (((82 - real_of_int (at' - zt)) * 0.5)\<^sup>2))
            + exp (- (((126 - real_of_int (at' - zt)) * 0.5)\<^sup>2))
     in
     (p(''V'' \<mapsto> PyComplex (complex_of_real (88.0 - 0.283 * E)
                         + complex_of_real (0.88 * real_of_int zt) / a3),
       ''Vi'' \<mapsto> PyFloat ((12.0 + 0.031 * E) * (1.0 - exp (- ((E * 0.01)\<^sup>2)))),
       ''Vsi'' \<mapsto> PyFloat ((12.0 + 0.031 * E) * exp (- ((E * 0.01)\<^sup>2))),
       ''Vso'' \<mapsto> PyFloat (7.2 - 0.032 * E),
       ''Vsoi'' \<mapsto> PyFloat 0,
       ''r0'' \<mapsto> PyFloat 1.17,
       ''ri0'' \<mapsto> PyFloat (1.376 - 0.01 * sqrt E),
       ''rsi0'' \<mapsto> PyFloat (1.376 - 0.01 * sqrt E),
       ''rso0'' \<mapsto> PyFloat 1.07,
       ''rsoi0'' \<mapsto> PyFloat 0,
       ''rc0'' \<mapsto> PyFloat 1.3,
       ''a'' \<mapsto> PyFloat (0.717 + 0.0012 * E),
       ''ai'' \<mapsto> PyComplex (0.52 + 0.07 * a3 - complex_of_real (0.04 * mu)),
       ''asi'' \<mapsto> PyComplex (0.52 + 0.07 * a3 - complex_of_real (0.04 * mu)),
       ''aso'' \<mapsto> PyFloat 0.66,
       ''asoi'' \<mapsto> PyFloat 0), None))"
proof -
  have nz: "c_pow (real_of_int at') 0.333 \<noteq> 0"
    using assms by (intro c_pow_nonzero) simp
  show ?thesis
    using assms nz
    by (simp add: daehnick_potential_def local_var_def py_pow_neg_frac bind_res_def
          py_sqrt_def Let_def)
qed

lemma daehnick_sqrt_raises_neg:
  assumes "at' < 0" "E < 0"
  shows "daehnick_potential E zt at' p =
    (p(''V'' \<mapsto> PyComplex (complex_of_real (88.0 - 0.283 * E)
                         + complex_of_real (0.88 * real_of_int zt)
                             / c_pow (real_of_int at') 0.333),
       ''Vi'' \<mapsto> PyFloat ((12.0 + 0.031 * E) * (1.0 - exp (- ((E * 0.01)\<^sup>2)))),
       ''Vsi'' \<mapsto> PyFloat ((12.0 + 0.031 * E) * exp (- ((E * 0.01)\<^sup>2))),
       ''Vso'' \<mapsto> PyFloat (7.2 - 0.032 * E),
       ''Vsoi'' \<mapsto> PyFloat 0,
       ''r0'' \<mapsto> PyFloat 1.17), Some ValueError)"
proof -
  have nz: "c_pow (real_of_int at') 0.333 \<noteq> 0"
    using assms by (intro c_pow_nonzero) simp
  show ?thesis
    using assms nz
    by (simp add: daehnick_potential_def local_var_def py_pow_neg_frac bind_res_def
          py_sqrt_def Let_def)
qed

lemma bojowald_run_neg:
  assumes "at' < 0"
  shows "bojowald_potential E zt at' p =
    (let a3 = c_pow (real_of_int at') 0.333;
         vi = (if E > 45 then 0.132 * (E - 45) else 0)
     in
     (p(''V'' \<mapsto> PyComplex (complex_of_real (81.33 - 0.24 * E)
                         + complex_of_real (1.43 * real_of_int zt) / a3),
       ''Vi'' \<mapsto> PyFloat vi,
       ''Vsi'' \<mapsto> PyComplex (7.8 + 1.04 * a3 - complex_of_real (0.712 * vi)),
       ''Vso'' \<mapsto> PyFloat 6.0,
       ''Vsoi'' \<mapsto> PyFloat 0,
       ''r0'' \<mapsto> PyFloat 1.18,
       ''ri0'' \<mapsto> PyFloat 1.27,
       ''rsi0'' \<mapsto> PyFloat 1.27,
       ''rso0'' \<mapsto> PyComplex (0.78 + 0.038 * a3),
       ''rsoi0'' \<mapsto> PyFloat 0,
       ''rc0'' \<mapsto> PyFloat 1.3,
       ''a'' \<mapsto> PyComplex (0.636 + 0.035 * a3),
       ''ai'' \<mapsto> PyComplex (0.768 + 0.021 * a3),
       ''asi'' \<mapsto> PyComplex (0.768 + 0.021 * a3),
       ''aso'' \<mapsto> PyComplex (0.78 + 0.038 * a3),
       ''asoi'' \<mapsto> PyFloat 0), None))"
proof -
  have nz: "c_pow (real_of_int at') 0.333 \<noteq> 0"
    using assms by (intro c_pow_nonzero) simp
  show ?thesis
    using assms nz
    by (simp add: bojowald_potential_def local_var_def py_pow_neg_frac bind_res_def
          py_get_def Let_def)
qed

lemma li_liang_run_neg:
  assumes "at' < 0"
  shows "li_liang_cai_triton_potential E zt at' p =
    (let a3 = c_pow (real_of_int at') (1 / 3); nt = at' - zt
     in
     (p(''V'' \<mapsto> PyComplex (complex_of_real (137.6 - 0.1456 * E + 0.0436 * E\<^sup>2
                 + 4.3751 * real_of_int (nt - zt) / real_of_int at')
                 + complex_of_real (1.0474 * real_of_int zt) / a3),
        ''r0'' \<mapsto> PyComplex (1.1201 - 0.1504 / a3),
        ''a'' \<mapsto> PyComplex (0.6833 + 0.0191 * a3),
        ''Vi'' \<mapsto> PyFloat (7.383 + 0.5025 * E - 0.0097 * E\<^sup>2),
        ''ri0'' \<mapsto> PyComplex (1.3202 - 0.1776 / a3),
        ''ai'' \<mapsto> PyComplex (1.119 + 0.01913 * a3),
        ''Vsi'' \<mapsto> PyFloat (37.06 - 0.6451 * E - 47.19 * real_of_int (nt - zt) / real_of_int at'),
        ''rsi0'' \<mapsto> PyComplex (1.251 - 0.4622 / a3),
        ''asi'' \<mapsto> PyComplex (0.8114 + 0.01159 * a3),
        ''Vso'' \<mapsto> PyFloat 1.9029,
        ''rso0'' \<mapsto> PyComplex (0.46991 + 0.1294 / a3),
        ''aso'' \<mapsto> PyComplex (0.3545 - 0.0522 * a3),
        ''Vsoi'' \<mapsto> PyFloat 0,
        ''rsoi0'' \<mapsto> PyFloat 0,
        ''asoi'' \<mapsto> PyFloat 0,
        ''rc0'' \<mapsto> PyFloat 1.422), None))"
proof -
  have nz: "c_pow (real_of_int at') (1 / 3) \<noteq> 0"
    using assms by (intro c_pow_nonzero) simp
  have pw: "py_pow (real_of_int at') (1 / 3) = Inr (PyComplex (c_pow (real_of_int at') (1 / 3)))"
    using assms frac_exponents(2) by (intro py_pow_neg_frac) simp_all
  show ?thesis
    using assms nz pw
    by (simp add: li_liang_cai_triton_potential_def local_var_def bind_res_def py_div_def Let_def)
qed

lemma koning_run_neg:
  assumes "at' < 0"
  shows "koning_delaroche_proton_potential E zt at' p =
    (let nt = at' - zt;
         a3 = c_pow (real_of_int at') 0.333;
         v1 = 59.30 + 21.0 * real_of_int (nt - zt) / real_of_int at' - 0.024 * real_of_int at';
         v2 = 0.007067 + 0.00000423 * real_of_int at';
         v3 = 0.00001729 + 0.00000001136 * real_of_int at';
         v4 = 0.000000007;
         w1 = 14.667 + 0.009629 * real_of_int at';
         w2 = 73.55 + 0.0795 * real_of_int at';
         d1 = 16.0 + 16.0 * real_of_int (nt - zt) / real_of_int at';
         d2 = 0.0180 + 0.003802 / (1.0 + exp ((real_of_int at' - 156.0) / 8.0));
         d3 = 11.5;
         vso1 = 5.922 + 0.0030 * real_of_int at';
         vso2 = 0.0040;
         wso1 = - 3.1;
         wso2 = 160;
         ef = - 8.4075 + 0.01378 * real_of_int at';
         rc = 1.198 + 0.697 * c_pow (real_of_int at') (- 0.666)
                + 12.994 * c_pow (real_of_int at') (- 1.666);
         vc = 1.73 / rc * complex_of_real (real_of_int zt) * a3;
         delta_e = E - ef
     in
     (p(''V'' \<mapsto> PyComplex
                   (complex_of_real (v1 * (1.0 - v2 * delta_e + v3 * delta_e\<^sup>2 - v4 * delta_e ^ 3))
                    + vc * complex_of_real v1
                         * complex_of_real (v2 - 2.0 * v3 * delta_e + 3.0 * v4 * delta_e\<^sup>2)),
        ''Vi'' \<mapsto> PyFloat (w1 * delta_e\<^sup>2 / (delta_e\<^sup>2 + w2\<^sup>2)),
        ''Vsi'' \<mapsto> PyFloat (d1 * delta_e\<^sup>2 / (delta_e\<^sup>2 + d3\<^sup>2) * exp (- 1.0 * d2 * delta_e)),
        ''Vso'' \<mapsto> PyFloat (vso1 * exp (- 1.0 * vso2 * delta_e)),
        ''Vsoi'' \<mapsto> PyFloat (wso1 * delta_e\<^sup>2 / (delta_e\<^sup>2 + wso2\<^sup>2)),
        ''r0'' \<mapsto> PyComplex (1.3039 - 0.4054 / a3),
        ''ri0'' \<mapsto> PyComplex (1.3039 - 0.4054 / a3),
        ''rsi0'' \<mapsto> PyComplex (1.3424 - 0.01585 * a3),
        ''rso0'' \<mapsto> PyComplex (1.1854 - 0.647 / a3),
        ''rsoi0'' \<mapsto> PyComplex (1.1854 - 0.647 / a3),
        ''rc0'' \<mapsto> PyComplex rc,
        ''a'' \<mapsto> PyFloat (0.6778 - 0.0001487 * real_of_int at'),
        ''ai'' \<mapsto> PyFloat (0.6778 - 0.0001487 * real_of_int at'),
        ''asi'' \<mapsto> PyFloat (0.5187 + 0.0005205 * real_of_int at'),
        ''aso'' \<mapsto> PyFloat 0.59,
        ''asoi'' \<mapsto> PyFloat 0.59), None))"
proof -
  have n1: "(1::real) + exp x \<noteq> 0" for x
    using exp_gt_zero [of x] by linarith
  have n3: "x\<^sup>2 + y\<^sup>2 \<noteq> 0" if "y \<noteq> 0" for x y :: real
    using that by (simp add: sum_power2_eq_zero_iff)
  note w2 = kd_w2_nonzero [of at']
  note rc = kd_rc_complex_nonzero [OF assms]
  have nz: "c_pow (real_of_int at') 0.333 \<noteq> 0"
    using assms by (intro c_pow_nonzero) simp
  have x: "real_of_int at' \<noteq> 0" "real_of_int at' < 0"
    using assms by simp_all
  show ?thesis
    using assms w2 rc nz
    by (simp add: koning_delaroche_proton_potential_def local_var_def py_pow_neg_frac bind_res_def
          py_div_def py_get_def Let_def n1 n3)
qed

subsection \<open>A mass number of zero, and which calls reach their end\<close>

text \<open>
  With \<open>at = 0\<close> the first division of each formula raises before anything is
  assigned.
\<close>

lemma an_cai_at_zero: "an_cai_potential E zt 0 p = (p, Some ZeroDivisionError)"
  by (simp add: an_cai_potential_def local_var_def py_pow_zero_pos bind_res_def)

lemma daehnick_at_zero: "daehnick_potential E zt 0 p = (p, Some ZeroDivisionError)"
  by (simp add: daehnick_potential_def local_var_def py_pow_zero_pos bind_res_def Let_def)

lemma bojowald_at_zero: "bojowald_potential E zt 0 p = (p, Some ZeroDivisionError)"
  by (simp add: bojowald_potential_def local_var_def py_pow_zero_pos bind_res_def)

lemma koning_at_zero: "koning_delaroche_proton_potential E zt 0 p = (p, Some ZeroDivisionError)"
  by (simp add: koning_delaroche_proton_potential_def local_var_def py_pow_zero_pos py_div_def Let_def)

lemma li_liang_at_zero: "li_liang_cai_triton_potential E zt 0 p = (p, Some ZeroDivisionError)"
  by (simp add: li_liang_cai_triton_potential_def local_var_def py_pow_zero_pos bind_res_def py_div_def Let_def)

lemma an_cai_completes_iff: "snd (an_cai_potential E zt at' p) = None \<longleftrightarrow> at' \<noteq> 0"
  using an_cai_run [of at' E zt p] an_cai_at_zero [of E zt p] an_cai_run_neg [of at' E zt p]
  by (cases "at' < 0"; cases "at' = 0") (auto simp add: Let_def)

lemma daehnick_completes_iff:
  "snd (daehnick_potential E zt at' p) = None \<longleftrightarrow> at' \<noteq> 0 \<and> 0 \<le> E"
  using daehnick_run [of at' E zt p] daehnick_at_zero [of E zt p]
    daehnick_run_neg [of at' E zt p] daehnick_sqrt_raises [of at' E zt p]
    daehnick_sqrt_raises_neg [of at' E zt p]
  by (cases "at' < 0"; cases "at' = 0"; cases "E < 0") (auto simp add: Let_def)

lemma bojowald_completes_iff: "snd (bojowald_potential E zt at' p) = None \<longleftrightarrow> at' \<noteq> 0"
  using bojowald_run [of at' E zt p] bojowald_at_zero [of E zt p] bojowald_run_neg [of at' E zt p]
  by (cases "at' < 0"; cases "at' = 0") (auto simp add: Let_def)

lemma koning_completes_iff:
  "snd (koning_delaroche_proton_potential E zt at' p) = None \<longleftrightarrow> at' \<noteq> 0"
  using koning_run [of at' E zt p] koning_at_zero [of E zt p] koning_run_neg [of at' E zt p]
  by (cases "at' < 0"; cases "at' = 0") (auto simp add: Let_def)

lemma li_liang_completes_iff:
  "snd (li_liang_cai_triton_potential E zt at' p) = None \<longleftrightarrow> at' \<noteq> 0"
  using li_liang_run [of at' E zt p] li_liang_at_zero [of E zt p] li_liang_run_neg [of at' E zt p]
  by (cases "at' < 0"; cases "at' = 0") (auto simp add: Let_def)

lemma daehnick_negative_energy:
  assumes "at' \<noteq> 0" "E < 0"
  shows "snd (daehnick_potential E zt at' p) = Some ValueError"
  using assms daehnick_sqrt_raises [of at' E zt p] daehnick_sqrt_raises_neg [of at' E zt p]
  by (cases "0 < at'") simp_all

subsection \<open>Dispatch\<close>

lemma POTENTIALS_keys:
  "map fst POTENTIALS =
     [''an-cai'', ''daehnick'', ''bojowald'', ''koning-delaroche-proton'', ''li-liang-cai-triton'']"
  by (simp add: POTENTIALS_def AN_CAI_def DAEHNICK_def BOJOWALD_def
        KONING_DELAROCHE_PROTON_def LI_LIANG_CAI_TRITON_def)

lemma create_parameters_registered:
  assumes "(kw, f) \<in> set POTENTIALS"
  shows "create_parameters E zt at' kw =
           (case f E zt at' zero_params of (p, None) \<Rightarrow> Inr p | (p, Some e) \<Rightarrow> Inl e)"
proof -
  have "map_of POTENTIALS kw = Some f"
    using assms
    by (auto simp add: POTENTIALS_def AN_CAI_def DAEHNICK_def BOJOWALD_def
        KONING_DELAROCHE_PROTON_def LI_LIANG_CAI_TRITON_def)
  moreover have "kw \<in> set (map fst POTENTIALS)"
    using assms by force
  ultimately show ?thesis
    by (simp add: create_parameters_def)
qed

lemma registered:
  "(''an-cai'', an_cai_potential) \<in> set POTENTIALS"
  "(''daehnick'', daehnick_potential) \<in> set POTENTIALS"
  "(''bojowald'', bojowald_potential) \<in> set POTENTIALS"
  "(''koning-delaroche-proton'', koning_delaroche_proton_potential) \<in> set POTENTIALS"
  "(''li-liang-cai-triton'', li_liang_cai_triton_potential) \<in> set POTENTIALS"
  by (simp_all add: POTENTIALS_def AN_CAI_def DAEHNICK_def BOJOWALD_def
        KONING_DELAROCHE_PROTON_def LI_LIANG_CAI_TRITON_def)

lemma registered_cases:
  assumes "(kw, f) \<in> set POTENTIALS"
  shows "(kw = ''an-cai'' \<and> f = an_cai_potential)
       \<or> (kw = ''daehnick'' \<and> f = daehnick_potential)
       \<or> (kw = ''bojowald'' \<and> f = bojowald_potential)
       \<or> (kw = ''koning-delaroche-proton'' \<and> f = koning_delaroche_proton_potential)
       \<or> (kw = ''li-liang-cai-triton'' \<and> f = li_liang_cai_triton_potential)"
  using assms
  by (auto simp add: POTENTIALS_def AN_CAI_def DAEHNICK_def BOJOWALD_def
        KONING_DELAROCHE_PROTON_def LI_LIANG_CAI_TRITON_def)

lemma dom_zero_params: "dom zero_params = set param_keys"
  by (simp add: zero_params_def dom_map_of_conv_image_fst image_image)

subsection \<open>The sixteen keys are all overwritten\<close>

text \<open>
  A run that reaches its end has overwritten the dictionary with a map \<open>m\<close> of exactly
  the sixteen keys that depends on \<open>E\<close>, \<open>zt\<close> and \<open>at\<close> only.
\<close>

lemma set_param_keys:
  "set param_keys =
     {''V'', ''Vi'', ''Vsi'', ''Vso'', ''Vsoi'', ''r0'', ''ri0'', ''rsi0'', ''rso0'',
      ''rsoi0'', ''rc0'', ''a'', ''ai'', ''asi'', ''aso'', ''asoi''}"
  by (simp add: param_keys_def)

lemma sixteen_keys: "length param_keys = 16 \<and> distinct param_keys"
  by (simp add: param_keys_def)

lemma an_cai_overwrites:
  assumes "at' \<noteq> 0"
  shows "\<exists>m. dom m = set param_keys \<and> (\<forall>p. an_cai_potential E zt at' p = (p ++ m, None))"
proof -
  define m where "m = fst (an_cai_potential E zt at' Map.empty)"
  show ?thesis
  proof (cases "0 < at'")
    case True
    have "dom m = set param_keys"
      unfolding m_def an_cai_run [OF True] set_param_keys by (simp add: insert_commute)
    moreover have "an_cai_potential E zt at' p = (p ++ m, None)" for p
      unfolding m_def an_cai_run [OF True] by simp
    ultimately show ?thesis by blast
  next
    case False
    with assms have neg: "at' < 0" by simp
    have "dom m = set param_keys"
      unfolding m_def an_cai_run_neg [OF neg] set_param_keys by (simp add: Let_def insert_commute)
    moreover have "an_cai_potential E zt at' p = (p ++ m, None)" for p
      unfolding m_def an_cai_run_neg [OF neg] by (simp add: Let_def)
    ultimately show ?thesis by blast
  qed
qed

lemma daehnick_overwrites:
  assumes "at' \<noteq> 0" "0 \<le> E"
  shows "\<exists>m. dom m = set param_keys \<and> (\<forall>p. daehnick_potential E zt at' p = (p ++ m, None))"
proof -
  define m where "m = fst (daehnick_potential E zt at' Map.empty)"
  show ?thesis
  proof (cases "0 < at'")
    case True
    have "dom m = set param_keys"
      unfolding m_def daehnick_run [OF True assms(2)] set_param_keys
      by (simp add: Let_def insert_commute)
    moreover have "daehnick_potential E zt at' p = (p ++ m, None)" for p
      unfolding m_def daehnick_run [OF True assms(2)] by (simp add: Let_def)
    ultimately show ?thesis by blast
  next
    case False
    with assms have neg: "at' < 0" by simp
    have "dom m = set param_keys"
      unfolding m_def daehnick_run_neg [OF neg assms(2)] set_param_keys
      by (simp add: Let_def insert_commute)
    moreover have "daehnick_potential E zt at' p = (p ++ m, None)" for p
      unfolding m_def daehnick_run_neg [OF neg assms(2)] by (simp add: Let_def)
    ultimately show ?thesis by blast
  qed
qed

lemma bojowald_overwrites:
  assumes "at' \<noteq> 0"
  shows "\<exists>m. dom m = set param_keys \<and> (\<forall>p. bojowald_potential E zt at' p = (p ++ m, None))"
proof -
  define m where "m = fst (bojowald_potential E zt at' Map.empty)"
  show ?thesis
  proof (cases "0 < at'")
    case True
    have "dom m = set param_keys"
      unfolding m_def bojowald_run [OF True] set_param_keys by (simp add: Let_def insert_commute)
    moreover have "bojowald_potential E zt at' p = (p ++ m, None)" for p
      unfolding m_def bojowald_run [OF True] by (simp add: Let_def)
    ultimately show ?thesis by blast
  next
    case False
    with assms have neg: "at' < 0" by simp
    have "dom m = set param_keys"
      unfolding m_def bojowald_run_neg [OF neg] set_param_keys
      by (simp add: Let_def insert_commute)
    moreover have "bojowald_potential E zt at' p = (p ++ m, None)" for p
      unfolding m_def bojowald_run_neg [OF neg] by (simp add: Let_def)
    ultimately show ?thesis by blast
  qed
qed

lemma koning_overwrites:
  assumes "at' \<noteq> 0"
  shows "\<exists>m. dom m = set param_keys
           \<and> (\<forall>p. koning_delaroche_proton_potential E zt at' p = (p ++ m, None))"
proof -
  define m where "m = fst (koning_delaroche_proton_potential E zt at' Map.empty)"
  show ?thesis
  proof (cases "0 < at'")
    case True
    have "dom m = set param_keys"
      unfolding m_def koning_run [OF True] set_param_keys by (simp add: Let_def insert_commute)
    moreover have "koning_delaroche_proton_potential E zt at' p = (p ++ m, None)" for p
      unfolding m_def koning_run [OF True] by (simp add: Let_def)
    ultimately show ?thesis by blast
  next
    case False
    with assms have neg: "at' < 0" by simp
    have "dom m = set param_keys"
      unfolding m_def koning_run_neg [OF neg] set_param_keys
      by (simp add: Let_def insert_commute)
    moreover have "koning_delaroche_proton_potential E zt at' p = (p ++ m, None)" for p
      unfolding m_def koning_run_neg [OF neg] by (simp add: Let_def)
    ultimately show ?thesis by blast
  qed
qed

lemma li_liang_overwrites:
  assumes "at' \<noteq> 0"
  shows "\<exists>m. dom m = set param_keys
           \<and> (\<forall>p. li_liang_cai_triton_potential E zt at' p = (p ++ m, None))"
proof -
  define m where "m = fst (li_liang_cai_triton_potential E zt at' Map.empty)"
  show ?thesis
  proof (cases "0 < at'")
    case True
    have "dom m = set param_keys"
      unfolding m_def li_liang_run [OF True] set_param_keys by (auto simp add: Let_def)
    moreover have "li_liang_cai_triton_potential E zt at' p = (p ++ m, None)" for p
      unfolding m_def li_liang_run [OF True] by (simp add: Let_def)
    ultimately show ?thesis by blast
  next
    case False
    with assms have neg: "at' < 0" by simp
    have "dom m = set param_keys"
      unfolding m_def li_liang_run_neg [OF neg] set_param_keys by (auto simp add: Let_def)
    moreover have "li_liang_cai_triton_potential E zt at' p = (p ++ m, None)" for p
      unfolding m_def li_liang_run_neg [OF neg] by (simp add: Let_def)
    ultimately show ?thesis by blast
  qed
qed

lemma formula_overwrites:
  assumes "(kw, f) \<in> set POTENTIALS" "at' \<noteq> 0" "kw = ''daehnick'' \<longrightarrow> 0 \<le> E"
  shows "\<exists>m. dom m = set param_keys \<and> (\<forall>p. f E zt at' p = (p ++ m, None))"
  using registered_cases [OF assms(1)] assms(2,3)
    an_cai_overwrites [of at' E zt] daehnick_overwrites [of at' E zt]
    bojowald_overwrites [of at' E zt] koning_overwrites [of at' E zt]
    li_liang_overwrites [of at' E zt]
  by (elim disjE conjE) simp_all

lemma formula_completes_iff:
  assumes "(kw, f) \<in> set POTENTIALS"
  shows "snd (f E zt at' p) = None \<longleftrightarrow> at' \<noteq> 0 \<and> (kw = ''daehnick'' \<longrightarrow> 0 \<le> E)"
  using registered_cases [OF assms]
  by (elim disjE conjE)
     (simp_all add: an_cai_completes_iff daehnick_completes_iff bojowald_completes_iff
        koning_completes_iff li_liang_completes_iff)

lemma formula_at_zero:
  assumes "(kw, f) \<in> set POTENTIALS"
  shows "f E zt 0 p = (p, Some ZeroDivisionError)"
  using registered_cases [OF assms]
  by (elim disjE conjE)
     (simp_all add: an_cai_at_zero daehnick_at_zero bojowald_at_zero koning_at_zero
        li_liang_at_zero)

text \<open>How a call ends depends on \<open>E\<close>, \<open>at\<close> and the formula only.\<close>

lemma formula_outcome:
  assumes "(kw, f) \<in> set POTENTIALS"
  shows "snd (f E zt at' p) =
           (if at' = 0 then Some ZeroDivisionError
            else if kw = ''daehnick'' \<and> E < 0 then Some ValueError
            else None)"
proof -
  consider "at' = 0" | "at' \<noteq> 0" "kw = ''daehnick'' \<longrightarrow> 0 \<le> E"
    | "at' \<noteq> 0" "kw = ''daehnick''" "E < 0"
    by fastforce
  then show ?thesis
  proof cases
    case 1
    then show ?thesis by (simp add: formula_at_zero [OF assms])
  next
    case 2
    then have "snd (f E zt at' p) = None"
      by (simp add: formula_completes_iff [OF assms])
    with 2 show ?thesis by auto
  next
    case 3
    then have "f = daehnick_potential"
      using registered_cases [OF assms] by auto
    then show ?thesis
      using 3 by (simp add: daehnick_negative_energy)
  qed
qed

lemma formula_outcome_independent:
  assumes "(kw, f) \<in> set POTENTIALS"
  shows "snd (f E zt at' p1) = snd (f E zt at' p2)"
  by (simp only: formula_outcome [OF assms])

lemma formula_never_raises_Exception:
  assumes "(kw, f) \<in> set POTENTIALS"
  shows "snd (f E zt at' p) \<noteq> Some (Exception msg)"
  by (simp add: formula_outcome [OF assms])

lemma registered_keyword_iff:
  "potential \<in> set (map fst POTENTIALS) \<longleftrightarrow> (\<exists>f. (potential, f) \<in> set POTENTIALS)"
  by force

lemma create_parameters_unknown:
  assumes "potential \<notin> set (map fst POTENTIALS)"
  shows "create_parameters E zt at' potential = Inl (Exception (unknown_potential_message potential))"
  using assms by (simp add: create_parameters_def)

lemma create_parameters_returns:
  assumes "(kw, f) \<in> set POTENTIALS" "at' \<noteq> 0" "kw = ''daehnick'' \<longrightarrow> 0 \<le> E"
  shows "\<exists>p. create_parameters E zt at' kw = Inr p \<and> dom p = set param_keys"
proof -
  obtain m where m: "dom m = set param_keys" "\<And>p. f E zt at' p = (p ++ m, None)"
    using formula_overwrites [OF assms] by blast
  have "create_parameters E zt at' kw = Inr (zero_params ++ m)"
    by (simp add: create_parameters_registered [OF assms(1)] m(2))
  moreover have "dom (zero_params ++ m) = set param_keys"
    by (simp add: m(1) dom_zero_params)
  ultimately show ?thesis by blast
qed

lemma create_parameters_Inr_iff:
  assumes "(kw, f) \<in> set POTENTIALS"
  shows "(\<exists>p. create_parameters E zt at' kw = Inr p) \<longleftrightarrow> snd (f E zt at' zero_params) = None"
  by (cases "f E zt at' zero_params"; cases "snd (f E zt at' zero_params)")
     (simp_all add: create_parameters_registered [OF assms])

lemma create_parameters_raises:
  assumes "(kw, f) \<in> set POTENTIALS" "snd (f E zt at' zero_params) = Some e"
  shows "create_parameters E zt at' kw = Inl e"
  using assms(2)
  by (cases "f E zt at' zero_params") (simp add: create_parameters_registered [OF assms(1)])

subsection \<open>The text of the exception\<close>

lemma sublist_inside:
  assumes "sublist xs ys"
  shows "sublist xs (ps @ ys @ ss)"
proof -
  from assms obtain a b where "ys = a @ xs @ b"
    by (auto simp add: sublist_def)
  then have "ps @ ys @ ss = (ps @ a) @ xs @ (b @ ss)"
    by simp
  then show ?thesis
    unfolding sublist_def by blast
qed

lemma sublist_py_repr_str: "sublist s (py_repr_str s)"
  using sublist_appendI [of s "[CHR 0x27]" "[CHR 0x27]"]
  by (simp add: py_repr_str_def)

lemma sublist_join_with:
  "x \<in> set xs \<Longrightarrow> sublist x (join_with sep xs)"
proof (induction sep xs rule: join_with.induct)
  case (1 sep)
  then show ?case by simp
next
  case (2 sep y)
  then show ?case by simp
next
  case (3 sep y z zs)
  show ?case
  proof (cases "x = y")
    case True
    then show ?thesis by simp
  next
    case False
    with 3 have "sublist x (join_with sep (z # zs))"
      by simp
    then have "sublist x ((y @ sep) @ join_with sep (z # zs) @ [])"
      by (rule sublist_inside)
    then show ?thesis by simp
  qed
qed

lemma message_enumerates_keywords:
  assumes "kw \<in> set (map fst POTENTIALS)"
  shows "sublist kw (unknown_potential_message potential)"
proof -
  let ?ks = "map fst POTENTIALS"
  have "py_repr_str kw \<in> set (map py_repr_str ?ks)"
    using assms by (rule imageI [of kw "set ?ks" py_repr_str, unfolded set_map [symmetric]])
  then have "sublist (py_repr_str kw) (join_with '', '' (map py_repr_str ?ks))"
    by (rule sublist_join_with)
  then have "sublist (py_repr_str kw)
       ((''Potential '' @ potential @ '' is not in the set of allowed Potentials '' @ ''dict_keys(['')
         @ join_with '', '' (map py_repr_str ?ks) @ (''])'' @ ''!''))"
    by (rule sublist_inside)
  then have "sublist (py_repr_str kw) (unknown_potential_message potential)"
    by (simp add: unknown_potential_message_def repr_dict_keys_def)
  moreover have "sublist kw ([] @ py_repr_str kw @ [])"
    using sublist_py_repr_str [of kw] by simp
  ultimately show ?thesis
    using sublist_py_repr_str [of kw] sublist_order.order.trans by blast
qed

subsection \<open>Continuity and derivatives of the building blocks\<close>

text \<open>
  The float outputs are sums, products and quotients of polynomials in \<open>E\<close>, of
  \<open>exp\<close>, of \<open>sqrt\<close> and, in \<open>bojowald\<close>, of the threshold
  \<open>0.132 * (E - 45) if E > 45 else 0\<close>, which is \<open>0.132 * max 0 (E - 45)\<close>.
\<close>

lemma differentiable_exp_of:
  fixes f :: "real \<Rightarrow> real"
  assumes "f differentiable (at x)"
  shows "(\<lambda>x. exp (f x)) differentiable (at x)"
proof -
  from assms obtain D where "(f has_real_derivative D) (at x)"
    unfolding real_differentiable_def by blast
  then have "((\<lambda>x. exp (f x)) has_real_derivative exp (f x) * D) (at x)"
    by (rule DERIV_fun_exp)
  then show ?thesis
    unfolding real_differentiable_def by blast
qed

lemma differentiable_sqrt_of:
  fixes f :: "real \<Rightarrow> real"
  assumes "f differentiable (at x)" "0 < f x"
  shows "(\<lambda>x. sqrt (f x)) differentiable (at x)"
proof -
  from assms obtain D where "(f has_real_derivative D) (at x)"
    unfolding real_differentiable_def by blast
  then have "\<exists>D'. ((\<lambda>x. sqrt (f x)) has_real_derivative D') (at x)"
    using assms(2) by (auto intro!: derivative_eq_intros exI)
  then show ?thesis
    unfolding real_differentiable_def by blast
qed

lemma continuous_on_transfer:
  fixes g g' :: "real \<Rightarrow> real"
  assumes "\<And>E. E \<in> D \<Longrightarrow> g E = g' E" "continuous_on D g'"
  shows "continuous_on D g"
  using assms by (simp cong: continuous_on_cong)

lemma differentiable_transfer:
  fixes g g' :: "real \<Rightarrow> real"
  assumes "\<And>E. E \<in> S \<Longrightarrow> g E = g' E" "open S" "x \<in> S" "g' differentiable (at x)"
  shows "g differentiable (at x)"
proof -
  from assms(4) obtain D where "(g' has_real_derivative D) (at x)"
    unfolding real_differentiable_def by blast
  then have "(g has_real_derivative D) (at x)"
    using assms(2,3) assms(1) [symmetric]
    by (rule has_field_derivative_transform_within_open)
  then show ?thesis
    unfolding real_differentiable_def by blast
qed

lemma threshold_differentiable:
  assumes "x \<noteq> 45"
  shows "(\<lambda>E::real. max 0 (E - 45)) differentiable (at x)"
proof (cases "x < 45")
  case True
  show ?thesis
  proof (rule differentiable_transfer [where S = "{..<45}" and g' = "\<lambda>E. 0"])
    show "x \<in> {..<45}" using True by simp
  qed simp_all
next
  case False
  with assms have gt: "45 < x" by simp
  show ?thesis
  proof (rule differentiable_transfer [where S = "{45<..}" and g' = "\<lambda>E. E - 45"])
    show "x \<in> {45<..}" using gt by simp
    show "(\<lambda>E::real. E - 45) differentiable (at x)"
      by (intro derivative_intros)
  qed simp_all
qed

lemma threshold_not_differentiable:
  assumes "c \<noteq> 0"
  shows "\<not> (\<lambda>E::real. b + c * max 0 (E - 45)) differentiable (at 45)"
proof
  let ?h = "\<lambda>E::real. b + c * max 0 (E - 45)"
  assume "?h differentiable (at 45)"
  then obtain D where "(?h has_real_derivative D) (at 45)"
    unfolding real_differentiable_def by blast
  then have lim: "((\<lambda>y. (?h y - ?h 45) / (y - 45)) \<longlongrightarrow> D) (at 45)"
    by (simp only: has_field_derivative_iff)
  then have right: "((\<lambda>y. (?h y - ?h 45) / (y - 45)) \<longlongrightarrow> D) (at_right 45)"
    and left: "((\<lambda>y. (?h y - ?h 45) / (y - 45)) \<longlongrightarrow> D) (at_left 45)"
    by (simp_all add: filterlim_at_split)
  have q: "(?h y - ?h 45) / (y - 45) = c" if "45 < y" for y
  proof -
    have nz: "y - 45 \<noteq> 0"
      using that by simp
    have "?h y - ?h 45 = c * (y - 45)"
      using that by simp
    then have "(?h y - ?h 45) / (y - 45) = c * (y - 45) / (y - 45)"
      by (rule arg_cong)
    also have "\<dots> = c"
      by (rule nonzero_mult_div_cancel_right [OF nz])
    finally show ?thesis .
  qed
  have evr: "\<forall>\<^sub>F y in at_right 45. (?h y - ?h 45) / (y - 45) = c"
    using eventually_at_right_less [of "45::real"]
    by eventually_elim (rule q)
  have "((\<lambda>y::real. c) \<longlongrightarrow> D) (at_right 45)"
    by (rule iffD1 [OF tendsto_cong [OF evr] right])
  then have D1: "D = c"
    by (simp add: tendsto_const_iff)
  have "\<forall>\<^sub>F y in at_left (45::real). y \<in> {44<..<45}"
    by (rule eventually_at_left_real) simp
  then have evl: "\<forall>\<^sub>F y in at_left 45. (?h y - ?h 45) / (y - 45) = 0"
    by eventually_elim simp
  have "((\<lambda>y::real. 0::real) \<longlongrightarrow> D) (at_left 45)"
    by (rule iffD1 [OF tendsto_cong [OF evl] left])
  then have "D = 0"
    by (simp add: tendsto_const_iff)
  with D1 assms show False
    by simp
qed

subsection \<open>Each output as a function of the energy, for a positive mass number\<close>

lemma an_cai_smooth:
  assumes "0 < at'" "k \<in> set param_keys"
  shows "continuous_on UNIV (\<lambda>E. float_value (the (fst (an_cai_potential E zt at' p) k)))
       \<and> (\<lambda>E. float_value (the (fst (an_cai_potential E zt at' p) k))) differentiable (at x)"
proof -
  define q where "q = 0.642 * real_of_int zt / real_of_int at' powr 0.333"
  define c where "c = (\<lambda>k. float_value (the (fst (an_cai_potential 0 zt at' p) k)))"
  have vals:
    "\<And>E. float_value (the (fst (an_cai_potential E zt at' p) ''V'')) = 91.85 - 0.249 * E + 0.0001116 * E\<^sup>2 + q"
    "\<And>E. float_value (the (fst (an_cai_potential E zt at' p) ''Vi'')) = 1.104 + 0.0622 * E"
    "\<And>E. float_value (the (fst (an_cai_potential E zt at' p) ''Vsi'')) = 10.83 - 0.0306 * E"
    "\<And>E. float_value (the (fst (an_cai_potential E zt at' p) ''Vso'')) = c ''Vso''"
    "\<And>E. float_value (the (fst (an_cai_potential E zt at' p) ''Vsoi'')) = c ''Vsoi''"
    "\<And>E. float_value (the (fst (an_cai_potential E zt at' p) ''r0'')) = c ''r0''"
    "\<And>E. float_value (the (fst (an_cai_potential E zt at' p) ''ri0'')) = c ''ri0''"
    "\<And>E. float_value (the (fst (an_cai_potential E zt at' p) ''rsi0'')) = c ''rsi0''"
    "\<And>E. float_value (the (fst (an_cai_potential E zt at' p) ''rso0'')) = c ''rso0''"
    "\<And>E. float_value (the (fst (an_cai_potential E zt at' p) ''rsoi0'')) = c ''rsoi0''"
    "\<And>E. float_value (the (fst (an_cai_potential E zt at' p) ''rc0'')) = c ''rc0''"
    "\<And>E. float_value (the (fst (an_cai_potential E zt at' p) ''a'')) = c ''a''"
    "\<And>E. float_value (the (fst (an_cai_potential E zt at' p) ''ai'')) = c ''ai''"
    "\<And>E. float_value (the (fst (an_cai_potential E zt at' p) ''asi'')) = c ''asi''"
    "\<And>E. float_value (the (fst (an_cai_potential E zt at' p) ''aso'')) = c ''aso''"
    "\<And>E. float_value (the (fst (an_cai_potential E zt at' p) ''asoi'')) = c ''asoi''"
    unfolding q_def c_def an_cai_run [OF assms(1)] Let_def by simp_all
  have c: "continuous_on UNIV (\<lambda>E. float_value (the (fst (an_cai_potential E zt at' p) k)))"
    using assms(2) unfolding set_param_keys
    by (elim insertE emptyE; hypsubst; unfold vals; intro continuous_intros)
  have d: "(\<lambda>E. float_value (the (fst (an_cai_potential E zt at' p) k))) differentiable (at x)"
    using assms(2) unfolding set_param_keys
    by (elim insertE emptyE; hypsubst; unfold vals; intro derivative_intros)
  from c d show ?thesis ..
qed

lemma li_liang_smooth:
  assumes "0 < at'" "k \<in> set param_keys"
  shows "continuous_on UNIV (\<lambda>E. float_value (the (fst (li_liang_cai_triton_potential E zt at' p) k)))
       \<and> (\<lambda>E. float_value (the (fst (li_liang_cai_triton_potential E zt at' p) k))) differentiable (at x)"
proof -
  define q where "q = 4.3751 * real_of_int (at' - zt - zt) / real_of_int at' + 1.0474 * real_of_int zt / real_of_int at' powr (1 / 3)"
  define r where "r = 47.19 * real_of_int (at' - zt - zt) / real_of_int at'"
  define c where "c = (\<lambda>k. float_value (the (fst (li_liang_cai_triton_potential 0 zt at' p) k)))"
  have vals:
    "\<And>E. float_value (the (fst (li_liang_cai_triton_potential E zt at' p) ''V'')) = 137.6 - 0.1456 * E + 0.0436 * E\<^sup>2 + q"
    "\<And>E. float_value (the (fst (li_liang_cai_triton_potential E zt at' p) ''Vi'')) = 7.383 + 0.5025 * E - 0.0097 * E\<^sup>2"
    "\<And>E. float_value (the (fst (li_liang_cai_triton_potential E zt at' p) ''Vsi'')) = 37.06 - 0.6451 * E - r"
    "\<And>E. float_value (the (fst (li_liang_cai_triton_potential E zt at' p) ''Vso'')) = c ''Vso''"
    "\<And>E. float_value (the (fst (li_liang_cai_triton_potential E zt at' p) ''Vsoi'')) = c ''Vsoi''"
    "\<And>E. float_value (the (fst (li_liang_cai_triton_potential E zt at' p) ''r0'')) = c ''r0''"
    "\<And>E. float_value (the (fst (li_liang_cai_triton_potential E zt at' p) ''ri0'')) = c ''ri0''"
    "\<And>E. float_value (the (fst (li_liang_cai_triton_potential E zt at' p) ''rsi0'')) = c ''rsi0''"
    "\<And>E. float_value (the (fst (li_liang_cai_triton_potential E zt at' p) ''rso0'')) = c ''rso0''"
    "\<And>E. float_value (the (fst (li_liang_cai_triton_potential E zt at' p) ''rsoi0'')) = c ''rsoi0''"
    "\<And>E. float_value (the (fst (li_liang_cai_triton_potential E zt at' p) ''rc0'')) = c ''rc0''"
    "\<And>E. float_value (the (fst (li_liang_cai_triton_potential E zt at' p) ''a'')) = c ''a''"
    "\<And>E. float_value (the (fst (li_liang_cai_triton_potential E zt at' p) ''ai'')) = c ''ai''"
    "\<And>E. float_value (the (fst (li_liang_cai_triton_potential E zt at' p) ''asi'')) = c ''asi''"
    "\<And>E. float_value (the (fst (li_liang_cai_triton_potential E zt at' p) ''aso'')) = c ''aso''"
    "\<And>E. float_value (the (fst (li_liang_cai_triton_potential E zt at' p) ''asoi'')) = c ''asoi''"
    unfolding q_def r_def c_def li_liang_run [OF assms(1)] Let_def by simp_all
  have c: "continuous_on UNIV (\<lambda>E. float_value (the (fst (li_liang_cai_triton_potential E zt at' p) k)))"
    using assms(2) unfolding set_param_keys
    by (elim insertE emptyE; hypsubst; unfold vals; intro continuous_intros)
  have d: "(\<lambda>E. float_value (the (fst (li_liang_cai_triton_potential E zt at' p) k))) differentiable (at x)"
    using assms(2) unfolding set_param_keys
    by (elim insertE emptyE; hypsubst; unfold vals; intro derivative_intros)
  from c d show ?thesis ..
qed

lemma bojowald_values:
  assumes "0 < at'"
  obtains q s c where
    "\<And>E. float_value (the (fst (bojowald_potential E zt at' p) ''V'')) = 81.33 - 0.24 * E + q"
    "\<And>E. float_value (the (fst (bojowald_potential E zt at' p) ''Vi'')) = 0.132 * max 0 (E - 45)"
    "\<And>E. float_value (the (fst (bojowald_potential E zt at' p) ''Vsi'')) = s - 0.712 * (0.132 * max 0 (E - 45))"
    "\<And>E. float_value (the (fst (bojowald_potential E zt at' p) ''Vso'')) = c ''Vso''"
    "\<And>E. float_value (the (fst (bojowald_potential E zt at' p) ''Vsoi'')) = c ''Vsoi''"
    "\<And>E. float_value (the (fst (bojowald_potential E zt at' p) ''r0'')) = c ''r0''"
    "\<And>E. float_value (the (fst (bojowald_potential E zt at' p) ''ri0'')) = c ''ri0''"
    "\<And>E. float_value (the (fst (bojowald_potential E zt at' p) ''rsi0'')) = c ''rsi0''"
    "\<And>E. float_value (the (fst (bojowald_potential E zt at' p) ''rso0'')) = c ''rso0''"
    "\<And>E. float_value (the (fst (bojowald_potential E zt at' p) ''rsoi0'')) = c ''rsoi0''"
    "\<And>E. float_value (the (fst (bojowald_potential E zt at' p) ''rc0'')) = c ''rc0''"
    "\<And>E. float_value (the (fst (bojowald_potential E zt at' p) ''a'')) = c ''a''"
    "\<And>E. float_value (the (fst (bojowald_potential E zt at' p) ''ai'')) = c ''ai''"
    "\<And>E. float_value (the (fst (bojowald_potential E zt at' p) ''asi'')) = c ''asi''"
    "\<And>E. float_value (the (fst (bojowald_potential E zt at' p) ''aso'')) = c ''aso''"
    "\<And>E. float_value (the (fst (bojowald_potential E zt at' p) ''asoi'')) = c ''asoi''"
proof -
  define q where "q = 1.43 * real_of_int zt / real_of_int at' powr 0.333"
  define s where "s = 7.8 + 1.04 * real_of_int at' powr 0.333"
  define c where "c = (\<lambda>k. float_value (the (fst (bojowald_potential 0 zt at' p) k)))"
  have m: "(if 45 < E then 0.132 * (E - 45) else 0) = 0.132 * max 0 (E - 45)" for E :: real
    by (simp add: max_def)
  have
    "\<And>E. float_value (the (fst (bojowald_potential E zt at' p) ''V'')) = 81.33 - 0.24 * E + q"
    "\<And>E. float_value (the (fst (bojowald_potential E zt at' p) ''Vi'')) = 0.132 * max 0 (E - 45)"
    "\<And>E. float_value (the (fst (bojowald_potential E zt at' p) ''Vsi'')) = s - 0.712 * (0.132 * max 0 (E - 45))"
    "\<And>E. float_value (the (fst (bojowald_potential E zt at' p) ''Vso'')) = c ''Vso''"
    "\<And>E. float_value (the (fst (bojowald_potential E zt at' p) ''Vsoi'')) = c ''Vsoi''"
    "\<And>E. float_value (the (fst (bojowald_potential E zt at' p) ''r0'')) = c ''r0''"
    "\<And>E. float_value (the (fst (bojowald_potential E zt at' p) ''ri0'')) = c ''ri0''"
    "\<And>E. float_value (the (fst (bojowald_potential E zt at' p) ''rsi0'')) = c ''rsi0''"
    "\<And>E. float_value (the (fst (bojowald_potential E zt at' p) ''rso0'')) = c ''rso0''"
    "\<And>E. float_value (the (fst (bojowald_potential E zt at' p) ''rsoi0'')) = c ''rsoi0''"
    "\<And>E. float_value (the (fst (bojowald_potential E zt at' p) ''rc0'')) = c ''rc0''"
    "\<And>E. float_value (the (fst (bojowald_potential E zt at' p) ''a'')) = c ''a''"
    "\<And>E. float_value (the (fst (bojowald_potential E zt at' p) ''ai'')) = c ''ai''"
    "\<And>E. float_value (the (fst (bojowald_potential E zt at' p) ''asi'')) = c ''asi''"
    "\<And>E. float_value (the (fst (bojowald_potential E zt at' p) ''aso'')) = c ''aso''"
    "\<And>E. float_value (the (fst (bojowald_potential E zt at' p) ''asoi'')) = c ''asoi''"
    unfolding q_def s_def c_def bojowald_run [OF assms(1)] Let_def m by simp_all
  then show ?thesis
    by (rule that)
qed

lemma bojowald_smooth:
  assumes "0 < at'" "k \<in> set param_keys"
  shows "continuous_on UNIV (\<lambda>E. float_value (the (fst (bojowald_potential E zt at' p) k)))
       \<and> (x \<noteq> 45 \<or> (k \<noteq> ''Vi'' \<and> k \<noteq> ''Vsi'')
            \<longrightarrow> (\<lambda>E. float_value (the (fst (bojowald_potential E zt at' p) k))) differentiable (at x))"
proof (rule bojowald_values [OF assms(1), where p = p and zt = zt])
  fix q s :: real and c :: "string \<Rightarrow> real"
  assume vals:
    "\<And>E. float_value (the (fst (bojowald_potential E zt at' p) ''V'')) = 81.33 - 0.24 * E + q"
    "\<And>E. float_value (the (fst (bojowald_potential E zt at' p) ''Vi'')) = 0.132 * max 0 (E - 45)"
    "\<And>E. float_value (the (fst (bojowald_potential E zt at' p) ''Vsi'')) = s - 0.712 * (0.132 * max 0 (E - 45))"
    "\<And>E. float_value (the (fst (bojowald_potential E zt at' p) ''Vso'')) = c ''Vso''"
    "\<And>E. float_value (the (fst (bojowald_potential E zt at' p) ''Vsoi'')) = c ''Vsoi''"
    "\<And>E. float_value (the (fst (bojowald_potential E zt at' p) ''r0'')) = c ''r0''"
    "\<And>E. float_value (the (fst (bojowald_potential E zt at' p) ''ri0'')) = c ''ri0''"
    "\<And>E. float_value (the (fst (bojowald_potential E zt at' p) ''rsi0'')) = c ''rsi0''"
    "\<And>E. float_value (the (fst (bojowald_potential E zt at' p) ''rso0'')) = c ''rso0''"
    "\<And>E. float_value (the (fst (bojowald_potential E zt at' p) ''rsoi0'')) = c ''rsoi0''"
    "\<And>E. float_value (the (fst (bojowald_potential E zt at' p) ''rc0'')) = c ''rc0''"
    "\<And>E. float_value (the (fst (bojowald_potential E zt at' p) ''a'')) = c ''a''"
    "\<And>E. float_value (the (fst (bojowald_potential E zt at' p) ''ai'')) = c ''ai''"
    "\<And>E. float_value (the (fst (bojowald_potential E zt at' p) ''asi'')) = c ''asi''"
    "\<And>E. float_value (the (fst (bojowald_potential E zt at' p) ''aso'')) = c ''aso''"
    "\<And>E. float_value (the (fst (bojowald_potential E zt at' p) ''asoi'')) = c ''asoi''"
  have c: "continuous_on UNIV (\<lambda>E. float_value (the (fst (bojowald_potential E zt at' p) k)))"
    using assms(2) unfolding set_param_keys
    by (elim insertE emptyE; hypsubst; unfold vals; intro continuous_intros)
  have d: "(\<lambda>E. float_value (the (fst (bojowald_potential E zt at' p) k))) differentiable (at x)"
    if "x \<noteq> 45"
    using assms(2) unfolding set_param_keys
    by (elim insertE emptyE; hypsubst; unfold vals;
        intro derivative_intros threshold_differentiable that)
  have d': "(\<lambda>E. float_value (the (fst (bojowald_potential E zt at' p) k))) differentiable (at x)"
    if "k \<noteq> ''Vi'' \<and> k \<noteq> ''Vsi''"
    using assms(2) that unfolding set_param_keys
    by (elim insertE emptyE conjE; hypsubst; (simp; fail)?; unfold vals; intro derivative_intros)
  from c d d' show ?thesis
    by blast
qed

lemma bojowald_kink:
  assumes "0 < at'"
  shows "(\<forall>E \<le> 45. float_value (the (fst (bojowald_potential E zt at' p) ''Vi'')) = 0)
       \<and> (\<forall>E > 45. float_value (the (fst (bojowald_potential E zt at' p) ''Vi'')) = 0.132 * (E - 45))
       \<and> \<not> (\<lambda>E. float_value (the (fst (bojowald_potential E zt at' p) ''Vi''))) differentiable (at 45)
       \<and> \<not> (\<lambda>E. float_value (the (fst (bojowald_potential E zt at' p) ''Vsi''))) differentiable (at 45)"
proof (rule bojowald_values [OF assms(1), where p = p and zt = zt])
  fix q s :: real and c :: "string \<Rightarrow> real"
  assume vals:
    "\<And>E. float_value (the (fst (bojowald_potential E zt at' p) ''V'')) = 81.33 - 0.24 * E + q"
    "\<And>E. float_value (the (fst (bojowald_potential E zt at' p) ''Vi'')) = 0.132 * max 0 (E - 45)"
    "\<And>E. float_value (the (fst (bojowald_potential E zt at' p) ''Vsi'')) = s - 0.712 * (0.132 * max 0 (E - 45))"
    "\<And>E. float_value (the (fst (bojowald_potential E zt at' p) ''Vso'')) = c ''Vso''"
    "\<And>E. float_value (the (fst (bojowald_potential E zt at' p) ''Vsoi'')) = c ''Vsoi''"
    "\<And>E. float_value (the (fst (bojowald_potential E zt at' p) ''r0'')) = c ''r0''"
    "\<And>E. float_value (the (fst (bojowald_potential E zt at' p) ''ri0'')) = c ''ri0''"
    "\<And>E. float_value (the (fst (bojowald_potential E zt at' p) ''rsi0'')) = c ''rsi0''"
    "\<And>E. float_value (the (fst (bojowald_potential E zt at' p) ''rso0'')) = c ''rso0''"
    "\<And>E. float_value (the (fst (bojowald_potential E zt at' p) ''rsoi0'')) = c ''rsoi0''"
    "\<And>E. float_value (the (fst (bojowald_potential E zt at' p) ''rc0'')) = c ''rc0''"
    "\<And>E. float_value (the (fst (bojowald_potential E zt at' p) ''a'')) = c ''a''"
    "\<And>E. float_value (the (fst (bojowald_potential E zt at' p) ''ai'')) = c ''ai''"
    "\<And>E. float_value (the (fst (bojowald_potential E zt at' p) ''asi'')) = c ''asi''"
    "\<And>E. float_value (the (fst (bojowald_potential E zt at' p) ''aso'')) = c ''aso''"
    "\<And>E. float_value (the (fst (bojowald_potential E zt at' p) ''asoi'')) = c ''asoi''"
  have "\<not> (\<lambda>E::real. 0 + 0.132 * max 0 (E - 45)) differentiable (at 45)"
    by (rule threshold_not_differentiable) simp
  then have vi: "\<not> (\<lambda>E. float_value (the (fst (bojowald_potential E zt at' p) ''Vi''))) differentiable (at 45)"
    unfolding vals by simp
  have "\<not> (\<lambda>E::real. s + (- 0.712 * 0.132) * max 0 (E - 45)) differentiable (at 45)"
    by (rule threshold_not_differentiable) simp
  moreover have "(\<lambda>E::real. s + (- 0.712 * 0.132) * max 0 (E - 45))
                 = (\<lambda>E. s - 0.712 * (0.132 * max 0 (E - 45)))"
    by (simp add: fun_eq_iff)
  ultimately have vsi:
    "\<not> (\<lambda>E. float_value (the (fst (bojowald_potential E zt at' p) ''Vsi''))) differentiable (at 45)"
    unfolding vals by (rule subst [where P = "\<lambda>f. \<not> f differentiable (at 45)", rotated])
  show ?thesis
    using vi vsi by (simp add: vals)
qed

lemma daehnick_smooth:
  assumes "0 < at'" "k \<in> set param_keys"
  shows "continuous_on {0..} (\<lambda>E. float_value (the (fst (daehnick_potential E zt at' p) k)))
       \<and> (0 < x \<longrightarrow> (\<lambda>E. float_value (the (fst (daehnick_potential E zt at' p) k))) differentiable (at x))"
proof -
  define q where "q = 0.88 * real_of_int zt / real_of_int at' powr 0.333"
  define c where "c = (\<lambda>k. float_value (the (fst (daehnick_potential 0 zt at' p) k)))"
  have vals:
    "\<And>E. 0 \<le> E \<Longrightarrow> float_value (the (fst (daehnick_potential E zt at' p) ''V'')) = 88.0 - 0.283 * E + q"
    "\<And>E. 0 \<le> E \<Longrightarrow> float_value (the (fst (daehnick_potential E zt at' p) ''Vi'')) = (12.0 + 0.031 * E) * (1.0 - exp (- ((E * 0.01)\<^sup>2)))"
    "\<And>E. 0 \<le> E \<Longrightarrow> float_value (the (fst (daehnick_potential E zt at' p) ''Vsi'')) = (12.0 + 0.031 * E) * exp (- ((E * 0.01)\<^sup>2))"
    "\<And>E. 0 \<le> E \<Longrightarrow> float_value (the (fst (daehnick_potential E zt at' p) ''Vso'')) = 7.2 - 0.032 * E"
    "\<And>E. 0 \<le> E \<Longrightarrow> float_value (the (fst (daehnick_potential E zt at' p) ''Vsoi'')) = c ''Vsoi''"
    "\<And>E. 0 \<le> E \<Longrightarrow> float_value (the (fst (daehnick_potential E zt at' p) ''r0'')) = c ''r0''"
    "\<And>E. 0 \<le> E \<Longrightarrow> float_value (the (fst (daehnick_potential E zt at' p) ''ri0'')) = 1.376 - 0.01 * sqrt E"
    "\<And>E. 0 \<le> E \<Longrightarrow> float_value (the (fst (daehnick_potential E zt at' p) ''rsi0'')) = 1.376 - 0.01 * sqrt E"
    "\<And>E. 0 \<le> E \<Longrightarrow> float_value (the (fst (daehnick_potential E zt at' p) ''rso0'')) = c ''rso0''"
    "\<And>E. 0 \<le> E \<Longrightarrow> float_value (the (fst (daehnick_potential E zt at' p) ''rsoi0'')) = c ''rsoi0''"
    "\<And>E. 0 \<le> E \<Longrightarrow> float_value (the (fst (daehnick_potential E zt at' p) ''rc0'')) = c ''rc0''"
    "\<And>E. 0 \<le> E \<Longrightarrow> float_value (the (fst (daehnick_potential E zt at' p) ''a'')) = 0.717 + 0.0012 * E"
    "\<And>E. 0 \<le> E \<Longrightarrow> float_value (the (fst (daehnick_potential E zt at' p) ''ai'')) = c ''ai''"
    "\<And>E. 0 \<le> E \<Longrightarrow> float_value (the (fst (daehnick_potential E zt at' p) ''asi'')) = c ''asi''"
    "\<And>E. 0 \<le> E \<Longrightarrow> float_value (the (fst (daehnick_potential E zt at' p) ''aso'')) = c ''aso''"
    "\<And>E. 0 \<le> E \<Longrightarrow> float_value (the (fst (daehnick_potential E zt at' p) ''asoi'')) = c ''asoi''"
    unfolding q_def c_def by (simp_all add: daehnick_run [OF assms(1)] Let_def)
  have c: "continuous_on {0..} (\<lambda>E. float_value (the (fst (daehnick_potential E zt at' p) k)))"
    using assms(2) unfolding set_param_keys
    by (elim insertE emptyE; hypsubst)
       (rule continuous_on_transfer, rule vals, simp, intro continuous_intros)+
  have d: "(\<lambda>E. float_value (the (fst (daehnick_potential E zt at' p) k))) differentiable (at x)"
    if xpos: "0 < x"
    using assms(2) unfolding set_param_keys
    by (elim insertE emptyE; hypsubst)
       (rule differentiable_transfer [where S = "{0<..}"], rule vals, simp, simp,
         simp add: xpos,
         intro derivative_intros differentiable_exp_of differentiable_sqrt_of xpos)+
  from c d show ?thesis
    by blast
qed

lemma koning_shape:
  assumes "0 < at'"
  obtains v1 v2 v3 v4 vc w1 w2 d1 d2 vso1 ef r0 rsi0 rso0 rc a asi :: real
  where "w2 \<noteq> 0"
    and "\<And>E p. koning_delaroche_proton_potential E zt at' p =
      (p(''V'' \<mapsto> PyFloat (v1 * (1.0 - v2 * (E - ef) + v3 * (E - ef)\<^sup>2 - v4 * (E - ef) ^ 3)
                    + vc * v1 * (v2 - 2.0 * v3 * (E - ef) + 3.0 * v4 * (E - ef)\<^sup>2)),
         ''Vi'' \<mapsto> PyFloat (w1 * (E - ef)\<^sup>2 / ((E - ef)\<^sup>2 + w2\<^sup>2)),
         ''Vsi'' \<mapsto> PyFloat (d1 * (E - ef)\<^sup>2 / ((E - ef)\<^sup>2 + 11.5\<^sup>2) * exp (- 1.0 * d2 * (E - ef))),
         ''Vso'' \<mapsto> PyFloat (vso1 * exp (- 1.0 * 0.0040 * (E - ef))),
         ''Vsoi'' \<mapsto> PyFloat (- 3.1 * (E - ef)\<^sup>2 / ((E - ef)\<^sup>2 + 160\<^sup>2)),
         ''r0'' \<mapsto> PyFloat r0,
         ''ri0'' \<mapsto> PyFloat r0,
         ''rsi0'' \<mapsto> PyFloat rsi0,
         ''rso0'' \<mapsto> PyFloat rso0,
         ''rsoi0'' \<mapsto> PyFloat rso0,
         ''rc0'' \<mapsto> PyFloat rc,
         ''a'' \<mapsto> PyFloat a,
         ''ai'' \<mapsto> PyFloat a,
         ''asi'' \<mapsto> PyFloat asi,
         ''aso'' \<mapsto> PyFloat 0.59,
         ''asoi'' \<mapsto> PyFloat 0.59), None)"
proof -
  define nt where "nt = at' - zt"
  define a3 where "a3 = real_of_int at' powr 0.333"
  define v1 where "v1 = 59.30 + 21.0 * real_of_int (nt - zt) / real_of_int at' - 0.024 * real_of_int at'"
  define v2 where "v2 = 0.007067 + 0.00000423 * real_of_int at'"
  define v3 where "v3 = 0.00001729 + 0.00000001136 * real_of_int at'"
  define v4 :: real where "v4 = 0.000000007"
  define w1 where "w1 = 14.667 + 0.009629 * real_of_int at'"
  define w2 where "w2 = 73.55 + 0.0795 * real_of_int at'"
  define d1 where "d1 = 16.0 + 16.0 * real_of_int (nt - zt) / real_of_int at'"
  define d2 where "d2 = 0.0180 + 0.003802 / (1.0 + exp ((real_of_int at' - 156.0) / 8.0))"
  define vso1 where "vso1 = 5.922 + 0.0030 * real_of_int at'"
  define ef where "ef = - 8.4075 + 0.01378 * real_of_int at'"
  define rc where "rc = 1.198 + 0.697 * real_of_int at' powr (- 0.666)
                         + 12.994 * real_of_int at' powr (- 1.666)"
  define vc where "vc = 1.73 / rc * real_of_int zt * a3"
  define r0 where "r0 = 1.3039 - 0.4054 / a3"
  define rsi0 where "rsi0 = 1.3424 - 0.01585 * a3"
  define rso0 where "rso0 = 1.1854 - 0.647 / a3"
  define a where "a = 0.6778 - 0.0001487 * real_of_int at'"
  define asi where "asi = 0.5187 + 0.0005205 * real_of_int at'"
  have "0 < real_of_int at'" using assms by simp
  then have "0 < w2" by (simp add: w2_def)
  then have w2: "w2 \<noteq> 0" by simp
  have run: "koning_delaroche_proton_potential E zt at' p =
      (p(''V'' \<mapsto> PyFloat (v1 * (1.0 - v2 * (E - ef) + v3 * (E - ef)\<^sup>2 - v4 * (E - ef) ^ 3)
                    + vc * v1 * (v2 - 2.0 * v3 * (E - ef) + 3.0 * v4 * (E - ef)\<^sup>2)),
         ''Vi'' \<mapsto> PyFloat (w1 * (E - ef)\<^sup>2 / ((E - ef)\<^sup>2 + w2\<^sup>2)),
         ''Vsi'' \<mapsto> PyFloat (d1 * (E - ef)\<^sup>2 / ((E - ef)\<^sup>2 + 11.5\<^sup>2) * exp (- 1.0 * d2 * (E - ef))),
         ''Vso'' \<mapsto> PyFloat (vso1 * exp (- 1.0 * 0.0040 * (E - ef))),
         ''Vsoi'' \<mapsto> PyFloat (- 3.1 * (E - ef)\<^sup>2 / ((E - ef)\<^sup>2 + 160\<^sup>2)),
         ''r0'' \<mapsto> PyFloat r0,
         ''ri0'' \<mapsto> PyFloat r0,
         ''rsi0'' \<mapsto> PyFloat rsi0,
         ''rso0'' \<mapsto> PyFloat rso0,
         ''rsoi0'' \<mapsto> PyFloat rso0,
         ''rc0'' \<mapsto> PyFloat rc,
         ''a'' \<mapsto> PyFloat a,
         ''ai'' \<mapsto> PyFloat a,
         ''asi'' \<mapsto> PyFloat asi,
         ''aso'' \<mapsto> PyFloat 0.59,
         ''asoi'' \<mapsto> PyFloat 0.59), None)" for E p
    unfolding koning_run [OF assms] Let_def
      nt_def a3_def v1_def v2_def v3_def v4_def w1_def w2_def d1_def d2_def vso1_def ef_def
      rc_def vc_def r0_def rsi0_def rso0_def a_def asi_def
    by (rule refl)
  show ?thesis
    by (rule that [OF w2 run])
qed

lemma koning_smooth:
  assumes "0 < at'" "k \<in> set param_keys"
  shows "continuous_on UNIV (\<lambda>E. float_value (the (fst (koning_delaroche_proton_potential E zt at' p) k)))
       \<and> (\<lambda>E. float_value (the (fst (koning_delaroche_proton_potential E zt at' p) k))) differentiable (at x)"
proof (rule koning_shape [OF assms(1), of zt])
  fix w2 v1 v2 ef v3 v4 vc w1 d1 d2 vso1 r0 rsi0 rso0 rc a asi :: real
  assume w2: "w2 \<noteq> 0"
    and run: "\<And>E p. koning_delaroche_proton_potential E zt at' p =
      (p(''V'' \<mapsto> PyFloat (v1 * (1.0 - v2 * (E - ef) + v3 * (E - ef)\<^sup>2 - v4 * (E - ef) ^ 3)
                    + vc * v1 * (v2 - 2.0 * v3 * (E - ef) + 3.0 * v4 * (E - ef)\<^sup>2)),
         ''Vi'' \<mapsto> PyFloat (w1 * (E - ef)\<^sup>2 / ((E - ef)\<^sup>2 + w2\<^sup>2)),
         ''Vsi'' \<mapsto> PyFloat (d1 * (E - ef)\<^sup>2 / ((E - ef)\<^sup>2 + 11.5\<^sup>2) * exp (- 1.0 * d2 * (E - ef))),
         ''Vso'' \<mapsto> PyFloat (vso1 * exp (- 1.0 * 0.0040 * (E - ef))),
         ''Vsoi'' \<mapsto> PyFloat (- 3.1 * (E - ef)\<^sup>2 / ((E - ef)\<^sup>2 + 160\<^sup>2)),
         ''r0'' \<mapsto> PyFloat r0,
         ''ri0'' \<mapsto> PyFloat r0,
         ''rsi0'' \<mapsto> PyFloat rsi0,
         ''rso0'' \<mapsto> PyFloat rso0,
         ''rsoi0'' \<mapsto> PyFloat rso0,
         ''rc0'' \<mapsto> PyFloat rc,
         ''a'' \<mapsto> PyFloat a,
         ''ai'' \<mapsto> PyFloat a,
         ''asi'' \<mapsto> PyFloat asi,
         ''aso'' \<mapsto> PyFloat 0.59,
         ''asoi'' \<mapsto> PyFloat 0.59), None)"

  have g: "x\<^sup>2 + y\<^sup>2 \<noteq> 0" if "y \<noteq> 0" for x y :: real
    using that by (simp add: sum_power2_eq_zero_iff)
  have n3: "\<And>E. (E - ef)\<^sup>2 + w2\<^sup>2 \<noteq> 0" "\<And>E. (E - ef)\<^sup>2 + 11.5\<^sup>2 \<noteq> 0"
    "\<And>E. (E - ef)\<^sup>2 + 160\<^sup>2 \<noteq> 0"
    by (rule g, simp add: w2)+
  have vals:
    "\<And>E. float_value (the (fst (koning_delaroche_proton_potential E zt at' p) ''V''))
       = v1 * (1.0 - v2 * (E - ef) + v3 * (E - ef)\<^sup>2 - v4 * (E - ef) ^ 3)
                    + vc * v1 * (v2 - 2.0 * v3 * (E - ef) + 3.0 * v4 * (E - ef)\<^sup>2)"
    "\<And>E. float_value (the (fst (koning_delaroche_proton_potential E zt at' p) ''Vi''))
       = w1 * (E - ef)\<^sup>2 / ((E - ef)\<^sup>2 + w2\<^sup>2)"
    "\<And>E. float_value (the (fst (koning_delaroche_proton_potential E zt at' p) ''Vsi''))
       = d1 * (E - ef)\<^sup>2 / ((E - ef)\<^sup>2 + 11.5\<^sup>2) * exp (- 1.0 * d2 * (E - ef))"
    "\<And>E. float_value (the (fst (koning_delaroche_proton_potential E zt at' p) ''Vso''))
       = vso1 * exp (- 1.0 * 0.0040 * (E - ef))"
    "\<And>E. float_value (the (fst (koning_delaroche_proton_potential E zt at' p) ''Vsoi''))
       = - 3.1 * (E - ef)\<^sup>2 / ((E - ef)\<^sup>2 + 160\<^sup>2)"
    "\<And>E. float_value (the (fst (koning_delaroche_proton_potential E zt at' p) ''r0'')) = r0"
    "\<And>E. float_value (the (fst (koning_delaroche_proton_potential E zt at' p) ''ri0'')) = r0"
    "\<And>E. float_value (the (fst (koning_delaroche_proton_potential E zt at' p) ''rsi0'')) = rsi0"
    "\<And>E. float_value (the (fst (koning_delaroche_proton_potential E zt at' p) ''rso0'')) = rso0"
    "\<And>E. float_value (the (fst (koning_delaroche_proton_potential E zt at' p) ''rsoi0'')) = rso0"
    "\<And>E. float_value (the (fst (koning_delaroche_proton_potential E zt at' p) ''rc0'')) = rc"
    "\<And>E. float_value (the (fst (koning_delaroche_proton_potential E zt at' p) ''a'')) = a"
    "\<And>E. float_value (the (fst (koning_delaroche_proton_potential E zt at' p) ''ai'')) = a"
    "\<And>E. float_value (the (fst (koning_delaroche_proton_potential E zt at' p) ''asi'')) = asi"
    "\<And>E. float_value (the (fst (koning_delaroche_proton_potential E zt at' p) ''aso'')) = 0.59"
    "\<And>E. float_value (the (fst (koning_delaroche_proton_potential E zt at' p) ''asoi'')) = 0.59"
    unfolding run by simp_all
  have c: "continuous_on UNIV (\<lambda>E. float_value (the (fst (koning_delaroche_proton_potential E zt at' p) k)))"
    using assms(2) unfolding set_param_keys
    by (elim insertE emptyE; hypsubst; unfold vals; intro continuous_intros ballI n3)
  have d: "(\<lambda>E. float_value (the (fst (koning_delaroche_proton_potential E zt at' p) k))) differentiable (at x)"
    using assms(2) unfolding set_param_keys
    by (elim insertE emptyE; hypsubst; unfold vals;
        intro derivative_intros differentiable_exp_of n3)
  from c d show ?thesis ..
qed

lemma formula_float_valued:
  assumes reg: "(kw, f) \<in> set POTENTIALS" and pos: "0 < at'"
    and dom: "kw = ''daehnick'' \<longrightarrow> 0 \<le> E" and k: "k \<in> set param_keys"
  shows "\<exists>v. fst (f E zt at' p) k = Some v \<and> is_PyFloat v"
proof -
  have 1: "\<exists>v. fst (an_cai_potential E zt at' p) k = Some v \<and> is_PyFloat v"
    using k unfolding set_param_keys an_cai_run [OF pos]
    by (elim insertE emptyE; hypsubst; simp)
  have 2: "\<exists>v. fst (daehnick_potential E zt at' p) k = Some v \<and> is_PyFloat v" if "0 \<le> E"
    using k unfolding set_param_keys daehnick_run [OF pos that] Let_def
    by (elim insertE emptyE; hypsubst; simp)
  have 3: "\<exists>v. fst (bojowald_potential E zt at' p) k = Some v \<and> is_PyFloat v"
    using k unfolding set_param_keys bojowald_run [OF pos] Let_def
    by (elim insertE emptyE; hypsubst; simp)
  have 4: "\<exists>v. fst (koning_delaroche_proton_potential E zt at' p) k = Some v \<and> is_PyFloat v"
    using k unfolding set_param_keys koning_run [OF pos] Let_def
    by (elim insertE emptyE; hypsubst; simp)
  have 5: "\<exists>v. fst (li_liang_cai_triton_potential E zt at' p) k = Some v \<and> is_PyFloat v"
    using k unfolding set_param_keys li_liang_run [OF pos] Let_def
    by (elim insertE emptyE; hypsubst; simp)
  from registered_cases [OF reg] dom 1 2 3 4 5 show ?thesis
    by (elim disjE conjE) simp_all
qed

lemma returned_value:
  assumes reg: "(kw, f) \<in> set POTENTIALS" and pos: "0 < at'"
    and dom: "kw = ''daehnick'' \<longrightarrow> 0 \<le> E" and k: "k \<in> set param_keys"
  shows "create_parameters E zt at' kw = Inr (fst (f E zt at' zero_params))
           \<and> fst (f E zt at' zero_params) k
               = Some (PyFloat (float_value (the (fst (f E zt at' zero_params) k))))"
proof -
  from pos have nz: "at' \<noteq> 0"
    by simp
  obtain m where m: "dom m = set param_keys" "\<And>p. f E zt at' p = (p ++ m, None)"
    using formula_overwrites [OF reg nz dom] by blast
  have "create_parameters E zt at' kw = Inr (fst (f E zt at' zero_params))"
    by (simp add: create_parameters_registered [OF reg] m(2))
  moreover obtain v where "fst (f E zt at' zero_params) k = Some v" "is_PyFloat v"
    using formula_float_valued [OF reg pos dom k] by blast
  then have "fst (f E zt at' zero_params) k
               = Some (PyFloat (float_value (the (fst (f E zt at' zero_params) k))))"
    by simp
  ultimately show ?thesis
    by blast
qed

lemma formula_smooth:
  assumes reg: "(kw, f) \<in> set POTENTIALS" and pos: "0 < at'" and k: "k \<in> set param_keys"
  shows "continuous_on {E. kw = ''daehnick'' \<longrightarrow> 0 \<le> E} (\<lambda>E. float_value (the (fst (f E zt at' p) k)))"
    and "(kw = ''daehnick'' \<longrightarrow> 0 < x)
         \<and> (kw = ''bojowald'' \<and> (k = ''Vi'' \<or> k = ''Vsi'') \<longrightarrow> x \<noteq> 45)
         \<longrightarrow> (\<lambda>E. float_value (the (fst (f E zt at' p) k))) differentiable (at x)"
proof -
  have h: "{E::real. 0 \<le> E} = {0..}"
    by (simp add: atLeast_def)
  from registered_cases [OF reg]
  show "continuous_on {E. kw = ''daehnick'' \<longrightarrow> 0 \<le> E} (\<lambda>E. float_value (the (fst (f E zt at' p) k)))"
    using an_cai_smooth [OF pos k, of zt p x] daehnick_smooth [OF pos k, of zt p x]
      bojowald_smooth [OF pos k, of zt p x] koning_smooth [OF pos k, of zt p x]
      li_liang_smooth [OF pos k, of zt p x]
    by (elim disjE conjE) (simp_all add: h)
  from registered_cases [OF reg]
  show "(kw = ''daehnick'' \<longrightarrow> 0 < x)
         \<and> (kw = ''bojowald'' \<and> (k = ''Vi'' \<or> k = ''Vsi'') \<longrightarrow> x \<noteq> 45)
         \<longrightarrow> (\<lambda>E. float_value (the (fst (f E zt at' p) k))) differentiable (at x)"
    using an_cai_smooth [OF pos k, of zt p x] daehnick_smooth [OF pos k, of zt p x]
      bojowald_smooth [OF pos k, of zt p x] koning_smooth [OF pos k, of zt p x]
      li_liang_smooth [OF pos k, of zt p x]
    by (elim disjE conjE) auto
qed

lemma output_in_energy_eq:
  "output_in_energy f zt at' k = (\<lambda>E. float_value (the (fst (f E zt at' zero_params) k)))"
  by (simp add: output_in_energy_def fun_eq_iff)

section \<open>The claims\<close>

subsection \<open>C1: the keys of the returned dictionary\<close>

text \<open>
  Claim C1, as amended. For each of the five registered keywords, every dictionary
  that \<open>create_parameters\<close> returns has exactly the sixteen keys \<open>V\<close>, \<open>Vi\<close>, \<open>Vsi\<close>,
  \<open>Vso\<close>, \<open>Vsoi\<close>, \<open>r0\<close>, \<open>ri0\<close>, \<open>rsi0\<close>, \<open>rso0\<close>, \<open>rsoi0\<close>, \<open>rc0\<close>, \<open>a\<close>, \<open>ai\<close>, \<open>asi\<close>,
  \<open>aso\<close>, \<open>asoi\<close>; and a dictionary is returned exactly for the inputs with \<open>at \<noteq> 0\<close>
  and, for \<open>daehnick\<close>, \<open>0 \<le> E\<close> (in exact arithmetic).
\<close>

theorem create_parameters_key_set:
  "potential \<in> set (map fst POTENTIALS) \<longrightarrow>
     ((\<exists>p. create_parameters E zt at' potential = Inr p)
        \<longleftrightarrow> at' \<noteq> 0 \<and> (potential = ''daehnick'' \<longrightarrow> 0 \<le> E))
   \<and> (\<forall>p. create_parameters E zt at' potential = Inr p \<longrightarrow>
        dom p = {''V'', ''Vi'', ''Vsi'', ''Vso'', ''Vsoi'', ''r0'', ''ri0'', ''rsi0'', ''rso0'',
                 ''rsoi0'', ''rc0'', ''a'', ''ai'', ''asi'', ''aso'', ''asoi''})"
proof (intro impI conjI allI)
  assume "potential \<in> set (map fst POTENTIALS)"
  then obtain f where reg: "(potential, f) \<in> set POTENTIALS"
    by force
  show "(\<exists>p. create_parameters E zt at' potential = Inr p)
        \<longleftrightarrow> at' \<noteq> 0 \<and> (potential = ''daehnick'' \<longrightarrow> 0 \<le> E)"
    by (simp only: create_parameters_Inr_iff [OF reg] formula_completes_iff [OF reg])
  fix p
  assume ret: "create_parameters E zt at' potential = Inr p"
  then have "snd (f E zt at' zero_params) = None"
    using create_parameters_Inr_iff [OF reg, of E zt at'] by blast
  then have "at' \<noteq> 0" "potential = ''daehnick'' \<longrightarrow> 0 \<le> E"
    by (simp_all add: formula_completes_iff [OF reg])
  then have "\<exists>q. create_parameters E zt at' potential = Inr q \<and> dom q = set param_keys"
    by (rule create_parameters_returns [OF reg])
  then obtain q where q: "create_parameters E zt at' potential = Inr q" "dom q = set param_keys"
    by blast
  from ret q(1) have "p = q"
    by simp
  then show "dom p = {''V'', ''Vi'', ''Vsi'', ''Vso'', ''Vsoi'', ''r0'', ''ri0'', ''rsi0'',
                 ''rso0'', ''rsoi0'', ''rc0'', ''a'', ''ai'', ''asi'', ''aso'', ''asoi''}"
    by (simp only: q(2) set_param_keys)
qed

text \<open>
  The statement for \<open>create_parameters(30, 6, 12, "bojowald")\<close> and for
  \<open>create_parameters(30, 6, -12, "bojowald")\<close>.
\<close>

theorem create_parameters_key_set_witness:
  "''bojowald'' \<in> set (map fst POTENTIALS)
   \<and> (\<exists>p. create_parameters 30 6 12 ''bojowald'' = Inr p
          \<and> dom p = {''V'', ''Vi'', ''Vsi'', ''Vso'', ''Vsoi'', ''r0'', ''ri0'', ''rsi0'', ''rso0'',
                     ''rsoi0'', ''rc0'', ''a'', ''ai'', ''asi'', ''aso'', ''asoi''})
   \<and> (\<exists>p. create_parameters 30 6 (- 12) ''bojowald'' = Inr p
          \<and> dom p = {''V'', ''Vi'', ''Vsi'', ''Vso'', ''Vsoi'', ''r0'', ''ri0'', ''rsi0'', ''rso0'',
                     ''rsoi0'', ''rc0'', ''a'', ''ai'', ''asi'', ''aso'', ''asoi''})"
proof -
  have k: "''bojowald'' \<in> set (map fst POTENTIALS)"
    by (simp add: POTENTIALS_keys)
  have h: "(12::int) \<noteq> 0 \<and> (''bojowald'' = ''daehnick'' \<longrightarrow> (0::real) \<le> 30)"
    "(- 12::int) \<noteq> 0 \<and> (''bojowald'' = ''daehnick'' \<longrightarrow> (0::real) \<le> 30)"
    by simp_all
  note t = mp [OF create_parameters_key_set [of "''bojowald''" 30 6 12] k]
  note u = mp [OF create_parameters_key_set [of "''bojowald''" 30 6 "- 12"] k]
  from iffD2 [OF conjunct1 [OF t] h(1)]
  obtain p where p: "create_parameters 30 6 12 ''bojowald'' = Inr p"
    by (rule exE)
  from iffD2 [OF conjunct1 [OF u] h(2)]
  obtain q where q: "create_parameters 30 6 (- 12) ''bojowald'' = Inr q"
    by (rule exE)
  note dp = mp [OF spec [OF conjunct2 [OF t], of p] p]
  note dq = mp [OF spec [OF conjunct2 [OF u], of q] q]
  show ?thesis
    by (intro conjI exI [of _ p] exI [of _ q]) (rule k, rule p, rule dp, rule q, rule dq)
qed

text \<open>
  Claim C1 as first stated asks for a dictionary on every input. With a registered
  keyword and \<open>at = 0\<close> the call raises \<open>ZeroDivisionError\<close> and returns nothing.
\<close>

theorem create_parameters_no_result_at_zero_mass:
  "''an-cai'' \<in> set (map fst POTENTIALS)
   \<and> create_parameters 20 20 0 ''an-cai'' = Inl ZeroDivisionError"
  by (simp add: POTENTIALS_keys create_parameters_registered [OF registered(1)] an_cai_at_zero)

subsection \<open>C2: the errors of \<open>create_parameters\<close>\<close>

text \<open>
  Claim C2, as amended. \<open>create_parameters\<close> raises its own exception (a plain
  \<open>Exception\<close>) exactly when the keyword is not one of the five registered ones, and
  the message of that exception contains each of the five keywords. For a registered
  keyword no exception is raised when \<open>0 < at\<close> and, for \<open>daehnick\<close>, \<open>0 \<le> E\<close>; with
  \<open>at = 0\<close> the call raises \<open>ZeroDivisionError\<close>, and \<open>daehnick\<close> with \<open>0 < at\<close> and
  \<open>E < 0\<close> raises \<open>ValueError\<close>.
\<close>

theorem create_parameters_errors:
  "((\<exists>msg. create_parameters E zt at' potential = Inl (Exception msg))
      \<longleftrightarrow> potential \<notin> {''an-cai'', ''daehnick'', ''bojowald'', ''koning-delaroche-proton'',
                          ''li-liang-cai-triton''})
   \<and> (potential \<notin> set (map fst POTENTIALS) \<longrightarrow>
        create_parameters E zt at' potential
          = Inl (Exception (unknown_potential_message potential))
        \<and> (\<forall>kw \<in> {''an-cai'', ''daehnick'', ''bojowald'', ''koning-delaroche-proton'',
                   ''li-liang-cai-triton''}.
              sublist kw (unknown_potential_message potential)))
   \<and> (potential \<in> set (map fst POTENTIALS) \<and> 0 < at' \<and> (potential = ''daehnick'' \<longrightarrow> 0 \<le> E)
        \<longrightarrow> (\<exists>p. create_parameters E zt at' potential = Inr p))
   \<and> (potential \<in> set (map fst POTENTIALS) \<and> at' = 0
        \<longrightarrow> create_parameters E zt at' potential = Inl ZeroDivisionError)
   \<and> (potential = ''daehnick'' \<and> 0 < at' \<and> E < 0
        \<longrightarrow> create_parameters E zt at' potential = Inl ValueError)"
proof (intro conjI impI)
  have keys: "set (map fst POTENTIALS)
      = {''an-cai'', ''daehnick'', ''bojowald'', ''koning-delaroche-proton'',
         ''li-liang-cai-triton''}"
    by (simp add: POTENTIALS_keys)
  show "(\<exists>msg. create_parameters E zt at' potential = Inl (Exception msg))
      \<longleftrightarrow> potential \<notin> {''an-cai'', ''daehnick'', ''bojowald'', ''koning-delaroche-proton'',
                          ''li-liang-cai-triton''}"
  proof (cases "potential \<in> set (map fst POTENTIALS)")
    case False
    then show ?thesis
      using create_parameters_unknown [OF False, of E zt at'] by (simp only: keys) simp
  next
    case True
    then obtain f where reg: "(potential, f) \<in> set POTENTIALS"
      by force
    have "create_parameters E zt at' potential \<noteq> Inl (Exception msg)" for msg
    proof (cases "snd (f E zt at' zero_params)")
      case None
      then obtain p where "create_parameters E zt at' potential = Inr p"
        using create_parameters_Inr_iff [OF reg, of E zt at'] by blast
      then show ?thesis by simp
    next
      case (Some e)
      then have "e \<noteq> Exception msg"
        using formula_never_raises_Exception [OF reg, of E zt at' zero_params msg] by simp
      then show ?thesis
        by (simp add: create_parameters_raises [OF reg Some])
    qed
    with True show ?thesis
      by (simp only: keys) simp
  qed
next
  assume "potential \<notin> set (map fst POTENTIALS)"
  then show "create_parameters E zt at' potential
          = Inl (Exception (unknown_potential_message potential))"
    by (rule create_parameters_unknown)
next
  show "\<forall>kw \<in> {''an-cai'', ''daehnick'', ''bojowald'', ''koning-delaroche-proton'',
                   ''li-liang-cai-triton''}.
              sublist kw (unknown_potential_message potential)"
    using message_enumerates_keywords [of _ potential] by (simp add: POTENTIALS_keys)
next
  assume a: "potential \<in> set (map fst POTENTIALS) \<and> 0 < at'
             \<and> (potential = ''daehnick'' \<longrightarrow> 0 \<le> E)"
  then obtain f where reg: "(potential, f) \<in> set POTENTIALS"
    by force
  from a have "at' \<noteq> 0" "potential = ''daehnick'' \<longrightarrow> 0 \<le> E"
    by simp_all
  then have "\<exists>p. create_parameters E zt at' potential = Inr p \<and> dom p = set param_keys"
    by (rule create_parameters_returns [OF reg])
  then show "\<exists>p. create_parameters E zt at' potential = Inr p"
    by blast
next
  assume a: "potential \<in> set (map fst POTENTIALS) \<and> at' = 0"
  then obtain f where reg: "(potential, f) \<in> set POTENTIALS"
    by force
  have "snd (f E zt 0 zero_params) = Some ZeroDivisionError"
    by (simp add: formula_at_zero [OF reg])
  then have "create_parameters E zt 0 potential = Inl ZeroDivisionError"
    by (rule create_parameters_raises [OF reg])
  with a show "create_parameters E zt at' potential = Inl ZeroDivisionError"
    by simp
next
  assume a: "potential = ''daehnick'' \<and> 0 < at' \<and> E < 0"
  then have "snd (daehnick_potential E zt at' zero_params) = Some ValueError"
    by (simp add: daehnick_sqrt_raises)
  then have "create_parameters E zt at' ''daehnick'' = Inl ValueError"
    by (rule create_parameters_raises [OF registered(2)])
  with a show "create_parameters E zt at' potential = Inl ValueError"
    by simp
qed

text \<open>
  The statement at an unknown keyword, at a registered one, at \<open>at = 0\<close> and at a
  negative energy.
\<close>

theorem create_parameters_errors_witness:
  "create_parameters 10 6 12 ''unknown-potential''
     = Inl (Exception (unknown_potential_message ''unknown-potential''))
   \<and> sublist ''bojowald'' (unknown_potential_message ''unknown-potential'')
   \<and> (\<exists>p. create_parameters 10 6 12 ''li-liang-cai-triton'' = Inr p)
   \<and> create_parameters 10 6 0 ''koning-delaroche-proton'' = Inl ZeroDivisionError
   \<and> create_parameters (- 2) 6 12 ''daehnick'' = Inl ValueError"
  using create_parameters_errors [of 10 6 12 "''unknown-potential''"]
    create_parameters_errors [of 10 6 12 "''li-liang-cai-triton''"]
    create_parameters_errors [of 10 6 0 "''koning-delaroche-proton''"]
    create_parameters_errors [of "- 2" 6 12 "''daehnick''"]
  by (simp add: POTENTIALS_keys)

text \<open>
  Claim C2 as first stated has no error for a registered keyword.
  \<open>create_parameters(-1.0, 6, 12, "daehnick")\<close> raises \<open>ValueError\<close>.
\<close>

theorem daehnick_raises_on_negative_energy:
  "''daehnick'' \<in> set (map fst POTENTIALS)
   \<and> create_parameters (- 1) 6 12 ''daehnick'' = Inl ValueError"
  by (simp add: POTENTIALS_keys create_parameters_registered [OF registered(2)]
        daehnick_sqrt_raises)

subsection \<open>C3: the real depth of \<open>an-cai\<close> and its zero terms\<close>

text \<open>
  Claim C3, as amended. \<open>create_parameters(20.0, 20, 40, "an-cai")\<close> returns a
  dictionary whose entry \<open>V\<close> is \<open>91.85 - 0.249*20 + 1.116e-4*400 + 0.642*20/40**0.333\<close>
  and whose entries \<open>Vsoi\<close> and \<open>asoi\<close> are \<open>0.0\<close>. For every \<open>(E, zt, at)\<close> with
  \<open>at \<noteq> 0\<close> the an-cai formula runs to its end and sets
  \<open>V = 91.85 - 0.249*E + 1.116e-4*E^2 + 0.642*zt/at^0.333\<close>, where for a negative \<open>at\<close>
  the power \<open>at^0.333\<close> is the complex number that \<open>**\<close> gives and \<open>V\<close> is complex, and it
  sets the three spin-orbit-imaginary terms \<open>Vsoi\<close>, \<open>rsoi0\<close>, \<open>asoi\<close> to zero. With
  \<open>at = 0\<close> it raises \<open>ZeroDivisionError\<close> and leaves the dictionary as it was.
\<close>

theorem an_cai_real_depth_and_zero_terms:
  "(\<exists>p. create_parameters 20.0 20 40 ''an-cai'' = Inr p
        \<and> p ''V'' = Some (PyFloat (91.85 - 0.249 * 20 + 0.0001116 * 400 + 0.642 * 20 / 40 powr 0.333))
        \<and> p ''Vsoi'' = Some (PyFloat 0.0) \<and> p ''asoi'' = Some (PyFloat 0.0))
   \<and> (0 < at' \<longrightarrow>
        fst (an_cai_potential E zt at' params) ''V''
          = Some (PyFloat (91.85 - 0.249 * E + 0.0001116 * E\<^sup>2
                           + 0.642 * real_of_int zt / real_of_int at' powr 0.333)))
   \<and> (at' < 0 \<longrightarrow>
        fst (an_cai_potential E zt at' params) ''V''
          = Some (PyComplex (complex_of_real (91.85 - 0.249 * E + 0.0001116 * E\<^sup>2)
                             + complex_of_real (0.642 * real_of_int zt)
                                 / c_pow (real_of_int at') 0.333)))
   \<and> (at' \<noteq> 0 \<longrightarrow>
        snd (an_cai_potential E zt at' params) = None
        \<and> fst (an_cai_potential E zt at' params) ''Vsoi'' = Some (PyFloat 0)
        \<and> fst (an_cai_potential E zt at' params) ''rsoi0'' = Some (PyFloat 0)
        \<and> fst (an_cai_potential E zt at' params) ''asoi'' = Some (PyFloat 0))
   \<and> (at' = 0 \<longrightarrow> an_cai_potential E zt at' params = (params, Some ZeroDivisionError))"
proof (intro conjI impI)
  show "\<exists>p. create_parameters 20.0 20 40 ''an-cai'' = Inr p
        \<and> p ''V'' = Some (PyFloat (91.85 - 0.249 * 20 + 0.0001116 * 400 + 0.642 * 20 / 40 powr 0.333))
        \<and> p ''Vsoi'' = Some (PyFloat 0.0) \<and> p ''asoi'' = Some (PyFloat 0.0)"
    using an_cai_run [of 40 20 20 zero_params]
    by (simp add: create_parameters_registered [OF registered(1)])
next
  assume pos: "0 < at'"
  show "fst (an_cai_potential E zt at' params) ''V''
          = Some (PyFloat (91.85 - 0.249 * E + 0.0001116 * E\<^sup>2
                           + 0.642 * real_of_int zt / real_of_int at' powr 0.333))"
    by (simp add: an_cai_run [OF pos])
next
  assume neg: "at' < 0"
  show "fst (an_cai_potential E zt at' params) ''V''
          = Some (PyComplex (complex_of_real (91.85 - 0.249 * E + 0.0001116 * E\<^sup>2)
                             + complex_of_real (0.642 * real_of_int zt)
                                 / c_pow (real_of_int at') 0.333))"
    by (simp add: an_cai_run_neg [OF neg] Let_def)
next
  assume nz: "at' \<noteq> 0"
  show "snd (an_cai_potential E zt at' params) = None"
    using nz by (simp add: an_cai_completes_iff)
  show "fst (an_cai_potential E zt at' params) ''Vsoi'' = Some (PyFloat 0)"
    using nz an_cai_run [of at' E zt params] an_cai_run_neg [of at' E zt params]
    by (cases "0 < at'") (simp_all add: Let_def)
  show "fst (an_cai_potential E zt at' params) ''rsoi0'' = Some (PyFloat 0)"
    using nz an_cai_run [of at' E zt params] an_cai_run_neg [of at' E zt params]
    by (cases "0 < at'") (simp_all add: Let_def)
  show "fst (an_cai_potential E zt at' params) ''asoi'' = Some (PyFloat 0)"
    using nz an_cai_run [of at' E zt params] an_cai_run_neg [of at' E zt params]
    by (cases "0 < at'") (simp_all add: Let_def)
next
  assume "at' = 0"
  then show "an_cai_potential E zt at' params = (params, Some ZeroDivisionError)"
    by (simp add: an_cai_at_zero)
qed

text \<open>The general statement at \<open>E = 10\<close>, \<open>zt = 6\<close> and \<open>at = 12\<close>, \<open>-12\<close>, \<open>0\<close>.\<close>

theorem an_cai_real_depth_and_zero_terms_witness:
  "snd (an_cai_potential 10 6 12 zero_params) = None
   \<and> fst (an_cai_potential 10 6 12 zero_params) ''V''
       = Some (PyFloat (91.85 - 0.249 * 10 + 0.0001116 * 10\<^sup>2 + 0.642 * 6 / 12 powr 0.333))
   \<and> fst (an_cai_potential 10 6 12 zero_params) ''Vsoi'' = Some (PyFloat 0)
   \<and> fst (an_cai_potential 10 6 12 zero_params) ''rsoi0'' = Some (PyFloat 0)
   \<and> fst (an_cai_potential 10 6 12 zero_params) ''asoi'' = Some (PyFloat 0)
   \<and> snd (an_cai_potential 10 6 (- 12) zero_params) = None
   \<and> fst (an_cai_potential 10 6 (- 12) zero_params) ''V''
       = Some (PyComplex (complex_of_real (91.85 - 0.249 * 10 + 0.0001116 * 10\<^sup>2)
                          + complex_of_real (0.642 * 6) / c_pow (- 12) 0.333))
   \<and> fst (an_cai_potential 10 6 (- 12) zero_params) ''asoi'' = Some (PyFloat 0)
   \<and> an_cai_potential 10 6 0 zero_params = (zero_params, Some ZeroDivisionError)"
  using an_cai_real_depth_and_zero_terms [of 12 10 6 zero_params]
    an_cai_real_depth_and_zero_terms [of "- 12" 10 6 zero_params]
    an_cai_real_depth_and_zero_terms [of 0 10 6 zero_params]
  by simp

text \<open>
  Claim C3 as first stated has the formula set \<open>V\<close> and the zero terms for every
  \<open>(E, zt, at)\<close>. \<open>create_parameters(20.0, 20, 0, "an-cai")\<close> raises and returns
  nothing: the formula raises at the assignment of \<open>V\<close>, and a dictionary passed to
  it with \<open>Vsoi = 1.0\<close> and \<open>V = 0.0\<close> still holds them.
\<close>

theorem an_cai_assigns_nothing_at_zero_mass:
  "create_parameters 20 20 0 ''an-cai'' = Inl ZeroDivisionError
   \<and> snd (an_cai_potential 20 20 0 (zero_params(''Vsoi'' \<mapsto> PyFloat 1))) = Some ZeroDivisionError
   \<and> fst (an_cai_potential 20 20 0 (zero_params(''Vsoi'' \<mapsto> PyFloat 1))) ''Vsoi''
       = Some (PyFloat 1)
   \<and> fst (an_cai_potential 20 20 0 (zero_params(''Vsoi'' \<mapsto> PyFloat 1))) ''V''
       = Some (PyFloat 0)"
  by (simp add: create_parameters_registered [OF registered(1)] an_cai_at_zero
        zero_params_def param_keys_def)

subsection \<open>C4: the thresholded imaginary depth of \<open>bojowald\<close>\<close>

text \<open>
  Claim C4, as amended. \<open>create_parameters(30.0, 6, 12, "bojowald")\<close> returns
  \<open>Vi == 0.0\<close> and \<open>Vsi == 7.8 + 1.04*12**0.333 - 0.712*0.0\<close>. For every \<open>(E, zt, at)\<close>
  with \<open>at \<noteq> 0\<close> the bojowald formula runs to its end, the output \<open>Vi\<close> is \<open>0.0\<close> for
  every energy at or below 45 MeV and \<open>0.132*(E-45)\<close> for every energy above, and the
  output \<open>Vsi\<close> is \<open>7.8 + 1.04*at^0.333 - 0.712*Vi\<close> (a complex number for a negative
  \<open>at\<close>). With \<open>at = 0\<close> it raises \<open>ZeroDivisionError\<close> and leaves the dictionary as it
  was.
\<close>

theorem bojowald_imaginary_depths:
  "(\<exists>p. create_parameters 30.0 6 12 ''bojowald'' = Inr p
        \<and> p ''Vi'' = Some (PyFloat 0.0)
        \<and> p ''Vsi'' = Some (PyFloat (7.8 + 1.04 * 12 powr 0.333 - 0.712 * 0.0)))
   \<and> (at' \<noteq> 0 \<longrightarrow>
        snd (bojowald_potential E zt at' params) = None
        \<and> (E \<le> 45 \<longrightarrow> fst (bojowald_potential E zt at' params) ''Vi'' = Some (PyFloat 0.0))
        \<and> (45 < E \<longrightarrow>
              fst (bojowald_potential E zt at' params) ''Vi'' = Some (PyFloat (0.132 * (E - 45)))))
   \<and> (0 < at' \<longrightarrow>
        (\<exists>vi. fst (bojowald_potential E zt at' params) ''Vi'' = Some (PyFloat vi)
              \<and> fst (bojowald_potential E zt at' params) ''Vsi''
                  = Some (PyFloat (7.8 + 1.04 * real_of_int at' powr 0.333 - 0.712 * vi))))
   \<and> (at' < 0 \<longrightarrow>
        (\<exists>vi. fst (bojowald_potential E zt at' params) ''Vi'' = Some (PyFloat vi)
              \<and> fst (bojowald_potential E zt at' params) ''Vsi''
                  = Some (PyComplex (7.8 + 1.04 * c_pow (real_of_int at') 0.333
                                     - complex_of_real (0.712 * vi)))))
   \<and> (at' = 0 \<longrightarrow> bojowald_potential E zt at' params = (params, Some ZeroDivisionError))"
proof (intro conjI impI)
  show "\<exists>p. create_parameters 30.0 6 12 ''bojowald'' = Inr p
        \<and> p ''Vi'' = Some (PyFloat 0.0)
        \<and> p ''Vsi'' = Some (PyFloat (7.8 + 1.04 * 12 powr 0.333 - 0.712 * 0.0))"
    using bojowald_run [of 12 30 6 zero_params]
    by (simp add: create_parameters_registered [OF registered(3)] Let_def)
next
  assume nz: "at' \<noteq> 0"
  show "snd (bojowald_potential E zt at' params) = None"
    using nz by (simp add: bojowald_completes_iff)
  show "fst (bojowald_potential E zt at' params) ''Vi'' = Some (PyFloat 0.0)" if "E \<le> 45"
    using that nz bojowald_run [of at' E zt params] bojowald_run_neg [of at' E zt params]
    by (cases "0 < at'") (simp_all add: Let_def)
  show "fst (bojowald_potential E zt at' params) ''Vi'' = Some (PyFloat (0.132 * (E - 45)))"
    if "45 < E"
    using that nz bojowald_run [of at' E zt params] bojowald_run_neg [of at' E zt params]
    by (cases "0 < at'") (simp_all add: Let_def)
next
  assume pos: "0 < at'"
  show "\<exists>vi. fst (bojowald_potential E zt at' params) ''Vi'' = Some (PyFloat vi)
              \<and> fst (bojowald_potential E zt at' params) ''Vsi''
                  = Some (PyFloat (7.8 + 1.04 * real_of_int at' powr 0.333 - 0.712 * vi))"
    by (intro exI [of _ "if E > 45 then 0.132 * (E - 45) else 0"])
       (simp add: bojowald_run [OF pos] Let_def)
next
  assume neg: "at' < 0"
  show "\<exists>vi. fst (bojowald_potential E zt at' params) ''Vi'' = Some (PyFloat vi)
              \<and> fst (bojowald_potential E zt at' params) ''Vsi''
                  = Some (PyComplex (7.8 + 1.04 * c_pow (real_of_int at') 0.333
                                     - complex_of_real (0.712 * vi)))"
    by (intro exI [of _ "if E > 45 then 0.132 * (E - 45) else 0"])
       (simp add: bojowald_run_neg [OF neg] Let_def)
next
  assume "at' = 0"
  then show "bojowald_potential E zt at' params = (params, Some ZeroDivisionError)"
    by (simp add: bojowald_at_zero)
qed

text \<open>
  The general statement above the threshold (\<open>E = 60\<close>) and on it (\<open>E = 45\<close>), and at
  \<open>at = -12\<close> and \<open>at = 0\<close>.
\<close>

theorem bojowald_imaginary_depths_witness:
  "snd (bojowald_potential 60 6 12 zero_params) = None
   \<and> fst (bojowald_potential 60 6 12 zero_params) ''Vi'' = Some (PyFloat (0.132 * (60 - 45)))
   \<and> snd (bojowald_potential 45 6 12 zero_params) = None
   \<and> fst (bojowald_potential 45 6 12 zero_params) ''Vi'' = Some (PyFloat 0.0)
   \<and> snd (bojowald_potential 60 6 (- 12) zero_params) = None
   \<and> fst (bojowald_potential 60 6 (- 12) zero_params) ''Vi'' = Some (PyFloat (0.132 * (60 - 45)))
   \<and> (\<exists>vi. fst (bojowald_potential 60 6 (- 12) zero_params) ''Vi'' = Some (PyFloat vi)
          \<and> fst (bojowald_potential 60 6 (- 12) zero_params) ''Vsi''
              = Some (PyComplex (7.8 + 1.04 * c_pow (real_of_int (- 12)) 0.333
                                 - complex_of_real (0.712 * vi))))
   \<and> bojowald_potential 60 6 0 zero_params = (zero_params, Some ZeroDivisionError)"
proof -
  note a = bojowald_imaginary_depths [of 12 60 6 zero_params]
  note b = bojowald_imaginary_depths [of 12 45 6 zero_params]
  note c = bojowald_imaginary_depths [of "- 12" 60 6 zero_params]
  note d = bojowald_imaginary_depths [of 0 60 6 zero_params]
  from a have 1: "snd (bojowald_potential 60 6 12 zero_params) = None
      \<and> fst (bojowald_potential 60 6 12 zero_params) ''Vi'' = Some (PyFloat (0.132 * (60 - 45)))"
    by simp
  from b have 2: "snd (bojowald_potential 45 6 12 zero_params) = None
      \<and> fst (bojowald_potential 45 6 12 zero_params) ''Vi'' = Some (PyFloat 0.0)"
    by simp
  from c have 3: "snd (bojowald_potential 60 6 (- 12) zero_params) = None
      \<and> fst (bojowald_potential 60 6 (- 12) zero_params) ''Vi'' = Some (PyFloat (0.132 * (60 - 45)))"
    by simp
  have n: "(- 12::int) < 0"
    by simp
  note 4 = mp [OF conjunct1 [OF conjunct2 [OF conjunct2 [OF conjunct2 [OF c]]]] n]
  from d have 5: "bojowald_potential 60 6 0 zero_params = (zero_params, Some ZeroDivisionError)"
    by simp
  from 1 2 3 4 5 show ?thesis
    by blast
qed

text \<open>
  Claim C4 as first stated gives \<open>Vi\<close> for every \<open>(zt, at)\<close>.
  \<open>create_parameters(60.0, 6, 0, "bojowald")\<close> raises and returns nothing, and the
  formula called on the zero-filled dictionary leaves \<open>Vi\<close> at \<open>0.0\<close>, not at
  \<open>0.132*(60-45)\<close>.
\<close>

theorem bojowald_assigns_nothing_at_zero_mass:
  "create_parameters 60 6 0 ''bojowald'' = Inl ZeroDivisionError
   \<and> snd (bojowald_potential 60 6 0 zero_params) = Some ZeroDivisionError
   \<and> fst (bojowald_potential 60 6 0 zero_params) ''Vi'' = Some (PyFloat 0)
   \<and> fst (bojowald_potential 60 6 0 zero_params) ''Vi'' \<noteq> Some (PyFloat (0.132 * (60 - 45)))"
  by (simp add: create_parameters_registered [OF registered(3)] bojowald_at_zero
        zero_params_def param_keys_def)

subsection \<open>C5: the shared radii of \<open>koning-delaroche-proton\<close>\<close>

text \<open>
  Claim C5, as amended. \<open>create_parameters(50.0, 28, 58, "koning-delaroche-proton")\<close>
  returns a dictionary with \<open>rso0 == rsoi0\<close> and \<open>ri0 == r0\<close>. For every \<open>(E, zt, at)\<close>
  with \<open>at \<noteq> 0\<close> the formula runs to its end (in exact arithmetic) and the two
  equalities hold in the dictionary it leaves. With \<open>at = 0\<close> it raises
  \<open>ZeroDivisionError\<close> and leaves the dictionary as it was.
\<close>

theorem koning_delaroche_shared_radii:
  "(\<exists>p r s. create_parameters 50.0 28 58 ''koning-delaroche-proton'' = Inr p
        \<and> p ''rso0'' = Some s \<and> p ''rsoi0'' = Some s
        \<and> p ''ri0'' = Some r \<and> p ''r0'' = Some r)
   \<and> (at' \<noteq> 0 \<longrightarrow>
        snd (koning_delaroche_proton_potential E zt at' params) = None
        \<and> (\<exists>r s. fst (koning_delaroche_proton_potential E zt at' params) ''rso0'' = Some s
             \<and> fst (koning_delaroche_proton_potential E zt at' params) ''rsoi0'' = Some s
             \<and> fst (koning_delaroche_proton_potential E zt at' params) ''ri0'' = Some r
             \<and> fst (koning_delaroche_proton_potential E zt at' params) ''r0'' = Some r))
   \<and> (at' = 0 \<longrightarrow>
        koning_delaroche_proton_potential E zt at' params = (params, Some ZeroDivisionError))"
proof (intro conjI impI)
  show "\<exists>p r s. create_parameters 50.0 28 58 ''koning-delaroche-proton'' = Inr p
        \<and> p ''rso0'' = Some s \<and> p ''rsoi0'' = Some s
        \<and> p ''ri0'' = Some r \<and> p ''r0'' = Some r"
    using koning_run [of 58 50 28 zero_params]
    by (simp add: create_parameters_registered [OF registered(4)] Let_def)
next
  assume nz: "at' \<noteq> 0"
  show "snd (koning_delaroche_proton_potential E zt at' params) = None"
    using nz by (simp add: koning_completes_iff)
  show "\<exists>r s. fst (koning_delaroche_proton_potential E zt at' params) ''rso0'' = Some s
             \<and> fst (koning_delaroche_proton_potential E zt at' params) ''rsoi0'' = Some s
             \<and> fst (koning_delaroche_proton_potential E zt at' params) ''ri0'' = Some r
             \<and> fst (koning_delaroche_proton_potential E zt at' params) ''r0'' = Some r"
  proof (cases "0 < at'")
    case True
    then show ?thesis
      by (simp add: koning_run Let_def)
  next
    case False
    with nz have "at' < 0"
      by simp
    then show ?thesis
      by (simp add: koning_run_neg Let_def)
  qed
next
  assume "at' = 0"
  then show "koning_delaroche_proton_potential E zt at' params = (params, Some ZeroDivisionError)"
    by (simp add: koning_at_zero)
qed

text \<open>The general statement at \<open>E = 10\<close>, \<open>zt = 20\<close> and \<open>at = 40\<close>, \<open>-40\<close>, \<open>0\<close>.\<close>

theorem koning_delaroche_shared_radii_witness:
  "snd (koning_delaroche_proton_potential 10 20 40 zero_params) = None
   \<and> fst (koning_delaroche_proton_potential 10 20 40 zero_params) ''rso0''
       = fst (koning_delaroche_proton_potential 10 20 40 zero_params) ''rsoi0''
   \<and> fst (koning_delaroche_proton_potential 10 20 40 zero_params) ''ri0''
       = fst (koning_delaroche_proton_potential 10 20 40 zero_params) ''r0''
   \<and> fst (koning_delaroche_proton_potential 10 20 40 zero_params) ''r0'' \<noteq> None
   \<and> snd (koning_delaroche_proton_potential 10 20 (- 40) zero_params) = None
   \<and> fst (koning_delaroche_proton_potential 10 20 (- 40) zero_params) ''ri0''
       = fst (koning_delaroche_proton_potential 10 20 (- 40) zero_params) ''r0''
   \<and> koning_delaroche_proton_potential 10 20 0 zero_params = (zero_params, Some ZeroDivisionError)"
  using koning_delaroche_shared_radii [of 40 10 20 zero_params]
    koning_delaroche_shared_radii [of "- 40" 10 20 zero_params]
    koning_delaroche_shared_radii [of 0 10 20 zero_params]
  by auto

text \<open>
  Claim C5 as first stated has the equalities for every input.
  \<open>create_parameters(50.0, 28, 0, "koning-delaroche-proton")\<close> raises and returns
  nothing, and the formula called on a dictionary with \<open>r0 = 1.0\<close> and \<open>ri0 = 0.0\<close>
  leaves them different.
\<close>

theorem koning_assigns_nothing_at_zero_mass:
  "create_parameters 50 28 0 ''koning-delaroche-proton'' = Inl ZeroDivisionError
   \<and> snd (koning_delaroche_proton_potential 50 28 0 (zero_params(''r0'' \<mapsto> PyFloat 1)))
       = Some ZeroDivisionError
   \<and> fst (koning_delaroche_proton_potential 50 28 0 (zero_params(''r0'' \<mapsto> PyFloat 1))) ''r0''
       = Some (PyFloat 1)
   \<and> fst (koning_delaroche_proton_potential 50 28 0 (zero_params(''r0'' \<mapsto> PyFloat 1))) ''ri0''
       = Some (PyFloat 0)"
  by (simp add: create_parameters_registered [OF registered(4)] koning_at_zero
        zero_params_def param_keys_def)

subsection \<open>C6: the smoothing term and the imaginary split of \<open>daehnick\<close>\<close>

text \<open>
  The assignments of \<open>Vi\<close> and \<open>Vsi\<close> come before the first \<open>math.sqrt(E)\<close>, so they are
  made for every energy once the mass number is not zero.
\<close>

lemma daehnick_first_assignments:
  assumes "at' \<noteq> 0"
  shows "fst (daehnick_potential E zt at' p) ''Vi''
           = Some (PyFloat ((12.0 + 0.031 * E) * (1.0 - exp (- ((E * 0.01)\<^sup>2)))))"
    and "fst (daehnick_potential E zt at' p) ''Vsi''
           = Some (PyFloat ((12.0 + 0.031 * E) * exp (- ((E * 0.01)\<^sup>2))))"
  using assms daehnick_run [of at' E zt p] daehnick_sqrt_raises [of at' E zt p]
    daehnick_run_neg [of at' E zt p] daehnick_sqrt_raises_neg [of at' E zt p]
  by (cases "E < 0"; cases "0 < at'"; simp add: Let_def)+

text \<open>
  Claim C6, as amended. In the daehnick model, for every \<open>(E, zt, at)\<close> with
  \<open>at \<noteq> 0\<close> and with \<open>nt = at - zt\<close>:
  \<open>Vsi = (12 + 0.031*E)*exp(-(E/100)^2)\<close> and
  \<open>Vi = (12 + 0.031*E)*(1 - exp(-(E/100)^2))\<close>, so that \<open>Vi + Vsi = 12 + 0.031*E\<close> in
  exact arithmetic; and when moreover \<open>0 \<le> E\<close> the smoothing term \<open>mu\<close>, which the
  outputs \<open>ai\<close> and \<open>asi\<close> show as \<open>0.52 + 0.07*a3 - 0.04*mu\<close> (complex for a negative
  \<open>at\<close>), is the sum of the six Gaussians \<open>exp(-((N - nt)*0.5)^2)\<close> for \<open>N\<close> in 8, 20,
  28, 50, 82, 126. The run reaches its end exactly when \<open>at \<noteq> 0\<close> and \<open>0 \<le> E\<close>; with
  \<open>at = 0\<close> it raises \<open>ZeroDivisionError\<close> and leaves the dictionary as it was.
\<close>

theorem daehnick_smoothing_and_split:
  "(at' \<noteq> 0 \<longrightarrow>
      fst (daehnick_potential E zt at' params) ''Vsi''
        = Some (PyFloat ((12 + 0.031 * E) * exp (- ((E / 100)\<^sup>2))))
      \<and> fst (daehnick_potential E zt at' params) ''Vi''
        = Some (PyFloat ((12 + 0.031 * E) * (1 - exp (- ((E / 100)\<^sup>2)))))
      \<and> (\<exists>vi vsi. fst (daehnick_potential E zt at' params) ''Vi'' = Some (PyFloat vi)
            \<and> fst (daehnick_potential E zt at' params) ''Vsi'' = Some (PyFloat vsi)
            \<and> vi + vsi = 12 + 0.031 * E))
   \<and> (0 < at' \<and> 0 \<le> E \<longrightarrow>
        fst (daehnick_potential E zt at' params) ''ai''
          = Some (PyFloat (0.52 + 0.07 * real_of_int at' powr 0.333
                  - 0.04 * (\<Sum>N\<leftarrow>[8, 20, 28, 50, 82, 126].
                              exp (- (((N - real_of_int (at' - zt)) * 0.5)\<^sup>2)))))
      \<and> fst (daehnick_potential E zt at' params) ''asi''
          = Some (PyFloat (0.52 + 0.07 * real_of_int at' powr 0.333
                  - 0.04 * (\<Sum>N\<leftarrow>[8, 20, 28, 50, 82, 126].
                              exp (- (((N - real_of_int (at' - zt)) * 0.5)\<^sup>2))))))
   \<and> (at' < 0 \<and> 0 \<le> E \<longrightarrow>
        fst (daehnick_potential E zt at' params) ''ai''
          = Some (PyComplex (0.52 + 0.07 * c_pow (real_of_int at') 0.333
                  - complex_of_real (0.04 * (\<Sum>N\<leftarrow>[8, 20, 28, 50, 82, 126].
                              exp (- (((N - real_of_int (at' - zt)) * 0.5)\<^sup>2))))))
      \<and> fst (daehnick_potential E zt at' params) ''asi''
          = Some (PyComplex (0.52 + 0.07 * c_pow (real_of_int at') 0.333
                  - complex_of_real (0.04 * (\<Sum>N\<leftarrow>[8, 20, 28, 50, 82, 126].
                              exp (- (((N - real_of_int (at' - zt)) * 0.5)\<^sup>2)))))))
   \<and> (snd (daehnick_potential E zt at' params) = None \<longleftrightarrow> at' \<noteq> 0 \<and> 0 \<le> E)
   \<and> (at' = 0 \<longrightarrow> daehnick_potential E zt at' params = (params, Some ZeroDivisionError))"
proof (intro conjI impI)
  assume nz: "at' \<noteq> 0"
  have e: "E * 0.01 = E / 100"
    by simp
  show vsi: "fst (daehnick_potential E zt at' params) ''Vsi''
        = Some (PyFloat ((12 + 0.031 * E) * exp (- ((E / 100)\<^sup>2))))"
    using daehnick_first_assignments(2) [OF nz, of E zt params] by (simp add: e)
  show vi: "fst (daehnick_potential E zt at' params) ''Vi''
        = Some (PyFloat ((12 + 0.031 * E) * (1 - exp (- ((E / 100)\<^sup>2)))))"
    using daehnick_first_assignments(1) [OF nz, of E zt params] by (simp add: e)
  show "\<exists>vi vsi. fst (daehnick_potential E zt at' params) ''Vi'' = Some (PyFloat vi)
            \<and> fst (daehnick_potential E zt at' params) ''Vsi'' = Some (PyFloat vsi)
            \<and> vi + vsi = 12 + 0.031 * E"
  proof (intro exI conjI)
    show "(12 + 0.031 * E) * (1 - exp (- ((E / 100)\<^sup>2)))
          + (12 + 0.031 * E) * exp (- ((E / 100)\<^sup>2)) = 12 + 0.031 * E"
    proof -
      have "t * (1 - x) + t * x = t" for t x :: real
        by (simp add: right_diff_distrib)
      then show ?thesis .
    qed
  qed (rule vi, rule vsi)
next
  assume "0 < at' \<and> 0 \<le> E"
  then have pos: "0 < at'" and nonneg: "0 \<le> E"
    by simp_all
  show "fst (daehnick_potential E zt at' params) ''ai''
          = Some (PyFloat (0.52 + 0.07 * real_of_int at' powr 0.333
                  - 0.04 * (\<Sum>N\<leftarrow>[8, 20, 28, 50, 82, 126].
                              exp (- (((N - real_of_int (at' - zt)) * 0.5)\<^sup>2)))))"
    by (simp add: daehnick_run [OF pos nonneg] Let_def)
  show "fst (daehnick_potential E zt at' params) ''asi''
          = Some (PyFloat (0.52 + 0.07 * real_of_int at' powr 0.333
                  - 0.04 * (\<Sum>N\<leftarrow>[8, 20, 28, 50, 82, 126].
                              exp (- (((N - real_of_int (at' - zt)) * 0.5)\<^sup>2)))))"
    by (simp add: daehnick_run [OF pos nonneg] Let_def)
next
  assume "at' < 0 \<and> 0 \<le> E"
  then have neg: "at' < 0" and nonneg: "0 \<le> E"
    by simp_all
  show "fst (daehnick_potential E zt at' params) ''ai''
          = Some (PyComplex (0.52 + 0.07 * c_pow (real_of_int at') 0.333
                  - complex_of_real (0.04 * (\<Sum>N\<leftarrow>[8, 20, 28, 50, 82, 126].
                              exp (- (((N - real_of_int (at' - zt)) * 0.5)\<^sup>2))))))"
    by (simp add: daehnick_run_neg [OF neg nonneg] Let_def)
  show "fst (daehnick_potential E zt at' params) ''asi''
          = Some (PyComplex (0.52 + 0.07 * c_pow (real_of_int at') 0.333
                  - complex_of_real (0.04 * (\<Sum>N\<leftarrow>[8, 20, 28, 50, 82, 126].
                              exp (- (((N - real_of_int (at' - zt)) * 0.5)\<^sup>2))))))"
    by (simp add: daehnick_run_neg [OF neg nonneg] Let_def)
next
  show "snd (daehnick_potential E zt at' params) = None \<longleftrightarrow> at' \<noteq> 0 \<and> 0 \<le> E"
    by (rule daehnick_completes_iff)
next
  assume "at' = 0"
  then show "daehnick_potential E zt at' params = (params, Some ZeroDivisionError)"
    by (simp add: daehnick_at_zero)
qed

text \<open>The statement at \<open>E = 50\<close>, \<open>zt = 20\<close> and \<open>at = 40\<close>, \<open>-40\<close>, \<open>0\<close>.\<close>

theorem daehnick_smoothing_and_split_witness:
  "snd (daehnick_potential 50 20 40 zero_params) = None
   \<and> fst (daehnick_potential 50 20 40 zero_params) ''Vsi''
        = Some (PyFloat ((12 + 0.031 * 50) * exp (- ((50 / 100)\<^sup>2))))
   \<and> fst (daehnick_potential 50 20 40 zero_params) ''Vi''
        = Some (PyFloat ((12 + 0.031 * 50) * (1 - exp (- ((50 / 100)\<^sup>2)))))
   \<and> snd (daehnick_potential 50 20 (- 40) zero_params) = None
   \<and> fst (daehnick_potential 50 20 (- 40) zero_params) ''Vsi''
        = Some (PyFloat ((12 + 0.031 * 50) * exp (- ((50 / 100)\<^sup>2))))
   \<and> daehnick_potential 50 20 0 zero_params = (zero_params, Some ZeroDivisionError)"
  using daehnick_smoothing_and_split [of 40 50 20 zero_params]
    daehnick_smoothing_and_split [of "- 40" 50 20 zero_params]
    daehnick_smoothing_and_split [of 0 50 20 zero_params]
  by simp

text \<open>
  Claim C6 as first stated holds for every \<open>(E, zt, at)\<close>.
  \<open>create_parameters(50.0, 20, 0, "daehnick")\<close> raises and returns nothing, and the
  formula called on the zero-filled dictionary leaves \<open>Vi\<close> and \<open>Vsi\<close> at \<open>0.0\<close>: their
  sum is not \<open>12 + 0.031*50\<close>.
\<close>

theorem daehnick_assigns_nothing_at_zero_mass:
  "create_parameters 50 20 0 ''daehnick'' = Inl ZeroDivisionError
   \<and> snd (daehnick_potential 50 20 0 zero_params) = Some ZeroDivisionError
   \<and> fst (daehnick_potential 50 20 0 zero_params) ''Vi'' = Some (PyFloat 0)
   \<and> fst (daehnick_potential 50 20 0 zero_params) ''Vsi'' = Some (PyFloat 0)
   \<and> (0::real) + 0 \<noteq> 12 + 0.031 * 50"
  by (simp add: create_parameters_registered [OF registered(2)] daehnick_at_zero
        zero_params_def param_keys_def)

subsection \<open>C8: the outputs are continuous in the energy\<close>

text \<open>
  Claim C8, as amended. For each of the five formulas, with \<open>zt\<close> and \<open>at\<close> fixed and
  \<open>0 < at\<close>, every one of the sixteen outputs is a float and a continuous function of
  \<open>E\<close> on the energies for which the formula returns (all of them; \<open>0 \<le> E\<close> for
  \<open>daehnick\<close>). It has a derivative at every energy inside that range, except at
  \<open>E = 45\<close> in \<open>bojowald\<close> for \<open>Vi\<close> and for \<open>Vsi\<close>, which is computed from \<open>Vi\<close>. There
  \<open>Vi\<close> is \<open>0\<close> at and below 45 and \<open>0.132*(E-45)\<close> above: it has no derivative at 45
  (the kink) and is continuous, and neither has \<open>Vsi\<close>.
\<close>

theorem outputs_continuous_in_energy:
  "(kw, f) \<in> set POTENTIALS \<and> 0 < at' \<and> k \<in> set param_keys \<longrightarrow>
     (\<forall>E. (kw = ''daehnick'' \<longrightarrow> 0 \<le> E) \<longrightarrow>
          (\<exists>p. create_parameters E zt at' kw = Inr p
                \<and> p k = Some (PyFloat (output_in_energy f zt at' k E))))
   \<and> continuous_on {E. kw = ''daehnick'' \<longrightarrow> 0 \<le> E} (output_in_energy f zt at' k)
   \<and> (\<forall>x. (kw = ''daehnick'' \<longrightarrow> 0 < x)
          \<and> (kw = ''bojowald'' \<and> (k = ''Vi'' \<or> k = ''Vsi'') \<longrightarrow> x \<noteq> 45)
          \<longrightarrow> output_in_energy f zt at' k differentiable (at x))
   \<and> (kw = ''bojowald'' \<and> k = ''Vi'' \<longrightarrow>
        (\<forall>E \<le> 45. output_in_energy f zt at' k E = 0)
        \<and> (\<forall>E > 45. output_in_energy f zt at' k E = 0.132 * (E - 45))
        \<and> \<not> output_in_energy f zt at' k differentiable (at 45))
   \<and> (kw = ''bojowald'' \<and> k = ''Vsi'' \<longrightarrow>
        \<not> output_in_energy f zt at' k differentiable (at 45))"
proof (intro impI)
  assume a: "(kw, f) \<in> set POTENTIALS \<and> 0 < at' \<and> k \<in> set param_keys"
  then have reg: "(kw, f) \<in> set POTENTIALS" and pos: "0 < at'" and k: "k \<in> set param_keys"
    by simp_all
  let ?g = "output_in_energy f zt at' k"
  note g = output_in_energy_eq [of f zt at' k]
  have 1: "\<forall>E. (kw = ''daehnick'' \<longrightarrow> 0 \<le> E) \<longrightarrow>
             (\<exists>p. create_parameters E zt at' kw = Inr p \<and> p k = Some (PyFloat (?g E)))"
    using returned_value [OF reg pos _ k] by (simp add: output_in_energy_def)
  have 2: "continuous_on {E. kw = ''daehnick'' \<longrightarrow> 0 \<le> E} ?g"
    unfolding g by (rule formula_smooth(1) [OF reg pos k])
  have 3: "\<forall>x. (kw = ''daehnick'' \<longrightarrow> 0 < x)
              \<and> (kw = ''bojowald'' \<and> (k = ''Vi'' \<or> k = ''Vsi'') \<longrightarrow> x \<noteq> 45)
              \<longrightarrow> ?g differentiable (at x)"
    unfolding g using formula_smooth(2) [OF reg pos k] by blast
  have 4: "kw = ''bojowald'' \<and> k = ''Vi'' \<longrightarrow>
            (\<forall>E \<le> 45. ?g E = 0) \<and> (\<forall>E > 45. ?g E = 0.132 * (E - 45))
            \<and> \<not> ?g differentiable (at 45)"
  proof
    assume b: "kw = ''bojowald'' \<and> k = ''Vi''"
    then have "f = bojowald_potential"
      using registered_cases [OF reg] by auto
    with b show "(\<forall>E \<le> 45. ?g E = 0) \<and> (\<forall>E > 45. ?g E = 0.132 * (E - 45))
            \<and> \<not> ?g differentiable (at 45)"
      unfolding g using bojowald_kink [OF pos, of zt zero_params] by simp
  qed
  have 5: "kw = ''bojowald'' \<and> k = ''Vsi'' \<longrightarrow> \<not> ?g differentiable (at 45)"
  proof
    assume b: "kw = ''bojowald'' \<and> k = ''Vsi''"
    then have "f = bojowald_potential"
      using registered_cases [OF reg] by auto
    with b show "\<not> ?g differentiable (at 45)"
      unfolding g using bojowald_kink [OF pos, of zt zero_params] by simp
  qed
  from 1 2 3 4 5 show "(\<forall>E. (kw = ''daehnick'' \<longrightarrow> 0 \<le> E) \<longrightarrow>
          (\<exists>p. create_parameters E zt at' kw = Inr p
                \<and> p k = Some (PyFloat (output_in_energy f zt at' k E))))
   \<and> continuous_on {E. kw = ''daehnick'' \<longrightarrow> 0 \<le> E} (output_in_energy f zt at' k)
   \<and> (\<forall>x. (kw = ''daehnick'' \<longrightarrow> 0 < x)
          \<and> (kw = ''bojowald'' \<and> (k = ''Vi'' \<or> k = ''Vsi'') \<longrightarrow> x \<noteq> 45)
          \<longrightarrow> output_in_energy f zt at' k differentiable (at x))
   \<and> (kw = ''bojowald'' \<and> k = ''Vi'' \<longrightarrow>
        (\<forall>E \<le> 45. output_in_energy f zt at' k E = 0)
        \<and> (\<forall>E > 45. output_in_energy f zt at' k E = 0.132 * (E - 45))
        \<and> \<not> output_in_energy f zt at' k differentiable (at 45))
   \<and> (kw = ''bojowald'' \<and> k = ''Vsi'' \<longrightarrow>
        \<not> output_in_energy f zt at' k differentiable (at 45))"
    by (intro conjI)
qed

text \<open>The statement for the output \<open>Vi\<close> of \<open>bojowald\<close> at \<open>zt = 6\<close>, \<open>at = 12\<close>.\<close>

theorem outputs_continuous_in_energy_witness:
  "(''bojowald'', bojowald_potential) \<in> set POTENTIALS \<and> (0::int) < 12
   \<and> ''Vi'' \<in> set param_keys
   \<and> (\<forall>E. \<exists>p. create_parameters E 6 12 ''bojowald'' = Inr p
              \<and> p ''Vi'' = Some (PyFloat (output_in_energy bojowald_potential 6 12 ''Vi'' E)))
   \<and> continuous_on UNIV (output_in_energy bojowald_potential 6 12 ''Vi'')
   \<and> output_in_energy bojowald_potential 6 12 ''Vi'' differentiable (at 50)
   \<and> output_in_energy bojowald_potential 6 12 ''Vi'' 45 = 0
   \<and> output_in_energy bojowald_potential 6 12 ''Vi'' 60 = 0.132 * (60 - 45)
   \<and> \<not> output_in_energy bojowald_potential 6 12 ''Vi'' differentiable (at 45)"
proof -
  let ?g = "output_in_energy bojowald_potential 6 12 ''Vi''"
  have h: "(''bojowald'', bojowald_potential) \<in> set POTENTIALS \<and> (0::int) < 12
      \<and> ''Vi'' \<in> set param_keys"
    by (simp add: registered(3) param_keys_def)
  note t = mp [OF outputs_continuous_in_energy [of "''bojowald''" bojowald_potential 12 "''Vi''" 6] h]
  from t have 1: "\<forall>E. \<exists>p. create_parameters E 6 12 ''bojowald'' = Inr p
              \<and> p ''Vi'' = Some (PyFloat (?g E))"
    by simp
  from t have 2: "continuous_on UNIV ?g"
    by simp
  from t have "\<forall>x. (''bojowald'' = ''daehnick'' \<longrightarrow> 0 < x)
          \<and> (''bojowald'' = ''bojowald'' \<and> (''Vi'' = ''Vi'' \<or> ''Vi'' = ''Vsi'') \<longrightarrow> x \<noteq> 45)
          \<longrightarrow> ?g differentiable (at x)"
    by blast
  then have 3: "?g differentiable (at 50)"
    by simp
  from t have "''bojowald'' = ''bojowald'' \<and> ''Vi'' = ''Vi'' \<longrightarrow>
        (\<forall>E \<le> 45. ?g E = 0) \<and> (\<forall>E > 45. ?g E = 0.132 * (E - 45))
        \<and> \<not> ?g differentiable (at 45)"
    by blast
  then have a: "\<forall>E \<le> 45. ?g E = 0" and b: "\<forall>E > 45. ?g E = 0.132 * (E - 45)"
    and c: "\<not> ?g differentiable (at 45)"
    by simp_all
  have "?g 45 = 0"
    by (rule a [rule_format]) simp
  moreover have "?g 60 = 0.132 * (60 - 45)"
    by (rule b [rule_format]) simp
  ultimately have 4: "?g 45 = 0 \<and> ?g 60 = 0.132 * (60 - 45) \<and> \<not> ?g differentiable (at 45)"
    using c by blast
  from h 1 2 3 4 show ?thesis
    by blast
qed

text \<open>
  Claim C8 as first stated has one non-smooth point, in \<open>Vi\<close> of \<open>bojowald\<close>, and an
  output for every energy. The output \<open>Vsi\<close> of \<open>bojowald\<close> at \<open>zt = 6\<close>, \<open>at = 12\<close> has
  no derivative at \<open>E = 45\<close> either; \<open>create_parameters(-4.0, 20, 40, "daehnick")\<close>
  raises \<open>ValueError\<close>, and \<open>create_parameters(60.0, 6, 0, "bojowald")\<close> raises
  \<open>ZeroDivisionError\<close>: no output at those inputs.
\<close>

theorem bojowald_surface_depth_has_the_kink_too:
  "\<not> output_in_energy bojowald_potential 6 12 ''Vsi'' differentiable (at 45)
   \<and> create_parameters (- 4) 20 40 ''daehnick'' = Inl ValueError
   \<and> create_parameters 60 6 0 ''bojowald'' = Inl ZeroDivisionError"
proof -
  have "\<not> output_in_energy bojowald_potential 6 12 ''Vsi'' differentiable (at 45)"
    unfolding output_in_energy_eq using bojowald_kink [of 12 6 zero_params] by simp
  moreover have "create_parameters (- 4) 20 40 ''daehnick'' = Inl ValueError"
    by (simp add: create_parameters_registered [OF registered(2)] daehnick_sqrt_raises)
  moreover have "create_parameters 60 6 0 ''bojowald'' = Inl ZeroDivisionError"
    by (simp add: create_parameters_registered [OF registered(3)] bojowald_at_zero)
  ultimately show ?thesis
    by blast
qed

subsection \<open>C10: the dictionary passed in does not show in the result\<close>

text \<open>
  Claim C10, as amended. For each of the five formulas and any two dictionaries passed
  in, the two calls with the same \<open>(E, zt, at)\<close> end the same way (both reach the end,
  or both raise the same exception). A call that reaches its end has overwritten all
  sixteen keys with values that do not depend on the dictionary passed in, and has
  left every other key alone; so two dictionaries holding the sixteen keys end with
  identical contents. The zero-filled dictionary of \<open>create_parameters\<close> is
  unobservable: starting the formula from any dictionary holding the sixteen keys
  gives the result that \<open>create_parameters\<close> returns or raises.
\<close>

theorem formulas_overwrite_all_keys:
  "(kw, f) \<in> set POTENTIALS \<longrightarrow>
     snd (f E zt at' p1) = snd (f E zt at' p2)
   \<and> (snd (f E zt at' p1) = None \<longrightarrow>
        dom (fst (f E zt at' p1)) = dom p1 \<union> set param_keys
      \<and> (\<forall>k \<in> set param_keys. fst (f E zt at' p1) k = fst (f E zt at' p2) k)
      \<and> (\<forall>k. k \<notin> set param_keys \<longrightarrow> fst (f E zt at' p1) k = p1 k)
      \<and> (dom p1 = set param_keys \<and> dom p2 = set param_keys \<longrightarrow>
            fst (f E zt at' p1) = fst (f E zt at' p2)))
   \<and> (dom p1 = set param_keys \<longrightarrow>
        create_parameters E zt at' kw
          = (case f E zt at' p1 of (p, None) \<Rightarrow> Inr p | (p, Some e) \<Rightarrow> Inl e))"
proof (intro impI)
  assume reg: "(kw, f) \<in> set POTENTIALS"
  have indep: "snd (f E zt at' q1) = snd (f E zt at' q2)" for q1 q2
    by (rule formula_outcome_independent [OF reg])
  have same: "fst (f E zt at' q1) = fst (f E zt at' q2)"
    if "snd (f E zt at' q1) = None" "dom q1 = set param_keys" "dom q2 = set param_keys"
    for q1 q2
  proof -
    from that(1) have "at' \<noteq> 0" "kw = ''daehnick'' \<longrightarrow> 0 \<le> E"
      by (simp_all add: formula_completes_iff [OF reg])
    then obtain m where m: "dom m = set param_keys" "\<And>p. f E zt at' p = (p ++ m, None)"
      using formula_overwrites [OF reg, of at' E zt] by blast
    have "q1 ++ m = m" "q2 ++ m = m"
      using that(2,3) m(1) by (auto simp add: map_add_def fun_eq_iff domIff split: option.splits)
    then show ?thesis
      by (simp add: m(2))
  qed
  show "snd (f E zt at' p1) = snd (f E zt at' p2)
   \<and> (snd (f E zt at' p1) = None \<longrightarrow>
        dom (fst (f E zt at' p1)) = dom p1 \<union> set param_keys
      \<and> (\<forall>k \<in> set param_keys. fst (f E zt at' p1) k = fst (f E zt at' p2) k)
      \<and> (\<forall>k. k \<notin> set param_keys \<longrightarrow> fst (f E zt at' p1) k = p1 k)
      \<and> (dom p1 = set param_keys \<and> dom p2 = set param_keys \<longrightarrow>
            fst (f E zt at' p1) = fst (f E zt at' p2)))
   \<and> (dom p1 = set param_keys \<longrightarrow>
        create_parameters E zt at' kw
          = (case f E zt at' p1 of (p, None) \<Rightarrow> Inr p | (p, Some e) \<Rightarrow> Inl e))"
  proof (intro conjI impI)
    show "snd (f E zt at' p1) = snd (f E zt at' p2)"
      by (rule indep)
  next
    assume "snd (f E zt at' p1) = None"
    then have "at' \<noteq> 0" "kw = ''daehnick'' \<longrightarrow> 0 \<le> E"
      by (simp_all add: formula_completes_iff [OF reg])
    then obtain m where m: "dom m = set param_keys" "\<And>p. f E zt at' p = (p ++ m, None)"
      using formula_overwrites [OF reg, of at' E zt] by blast
    show "dom (fst (f E zt at' p1)) = dom p1 \<union> set param_keys"
      by (simp add: m Un_commute)
    show "\<forall>k \<in> set param_keys. fst (f E zt at' p1) k = fst (f E zt at' p2) k"
    proof
      fix k assume "k \<in> set param_keys"
      then have "k \<in> dom m" by (simp add: m(1))
      then show "fst (f E zt at' p1) k = fst (f E zt at' p2) k"
        by (simp add: m(2) map_add_dom_app_simps(1))
    qed
    show "\<forall>k. k \<notin> set param_keys \<longrightarrow> fst (f E zt at' p1) k = p1 k"
    proof (intro allI impI)
      fix k assume "k \<notin> set param_keys"
      then have "k \<notin> dom m" by (simp add: m(1))
      then show "fst (f E zt at' p1) k = p1 k"
        by (simp add: m(2) map_add_dom_app_simps(3))
    qed
  next
    assume "snd (f E zt at' p1) = None" "dom p1 = set param_keys \<and> dom p2 = set param_keys"
    then show "fst (f E zt at' p1) = fst (f E zt at' p2)"
      using same [of p1 p2] by simp
  next
    assume d: "dom p1 = set param_keys"
    show "create_parameters E zt at' kw
          = (case f E zt at' p1 of (p, None) \<Rightarrow> Inr p | (p, Some e) \<Rightarrow> Inl e)"
    proof (cases "snd (f E zt at' p1)")
      case None
      then have "fst (f E zt at' p1) = fst (f E zt at' zero_params)"
        using same [of p1 zero_params] d by (simp add: dom_zero_params)
      moreover have "snd (f E zt at' zero_params) = None"
        using None indep [of zero_params p1] by simp
      ultimately show ?thesis
        using None
        by (cases "f E zt at' p1"; cases "f E zt at' zero_params")
           (simp add: create_parameters_registered [OF reg])
    next
      case (Some e)
      then have "snd (f E zt at' zero_params) = Some e"
        using indep [of zero_params p1] by simp
      then have "create_parameters E zt at' kw = Inl e"
        by (rule create_parameters_raises [OF reg])
      then show ?thesis
        using Some by (cases "f E zt at' p1") simp
    qed
  qed
qed

text \<open>
  The statement for \<open>bojowald\<close> at \<open>(60, 6, 12)\<close> and at \<open>(60, 6, -12)\<close>, from a
  dictionary with \<open>Vi = 7\<close>.
\<close>

theorem formulas_overwrite_all_keys_witness:
  "snd (bojowald_potential 60 6 12 (zero_params(''Vi'' \<mapsto> PyFloat 7))) = None
   \<and> fst (bojowald_potential 60 6 12 zero_params)
       = fst (bojowald_potential 60 6 12 (zero_params(''Vi'' \<mapsto> PyFloat 7)))
   \<and> create_parameters 60 6 12 ''bojowald''
       = Inr (fst (bojowald_potential 60 6 12 (zero_params(''Vi'' \<mapsto> PyFloat 7))))
   \<and> snd (bojowald_potential 60 6 (- 12) (zero_params(''Vi'' \<mapsto> PyFloat 7))) = None
   \<and> fst (bojowald_potential 60 6 (- 12) zero_params)
       = fst (bojowald_potential 60 6 (- 12) (zero_params(''Vi'' \<mapsto> PyFloat 7)))"
proof -
  let ?q = "zero_params(''Vi'' \<mapsto> PyFloat 7)"
  have reg: "(''bojowald'', bojowald_potential) \<in> set POTENTIALS"
    by (rule registered(3))
  have d1: "dom zero_params = set param_keys"
    by (rule dom_zero_params)
  have d2: "dom ?q = set param_keys"
    by (auto simp add: dom_zero_params param_keys_def)
  have c: "snd (bojowald_potential 60 6 12 zero_params) = None"
    by (simp add: bojowald_completes_iff)
  have n: "snd (bojowald_potential 60 6 (- 12) zero_params) = None"
    by (simp add: bojowald_completes_iff)
  note t = mp [OF formulas_overwrite_all_keys [of "''bojowald''" bojowald_potential 60 6 12 zero_params ?q] reg]
  note u = mp [OF formulas_overwrite_all_keys [of "''bojowald''" bojowald_potential 60 6 12 ?q zero_params] reg]
  note v = mp [OF formulas_overwrite_all_keys [of "''bojowald''" bojowald_potential 60 6 "- 12" zero_params ?q] reg]
  from t c have c': "snd (bojowald_potential 60 6 12 ?q) = None"
    by simp
  from t c d1 d2 have e: "fst (bojowald_potential 60 6 12 zero_params)
       = fst (bojowald_potential 60 6 12 ?q)"
    by blast
  from u d2 have "create_parameters 60 6 12 ''bojowald''
     = (case bojowald_potential 60 6 12 ?q of (p, None) \<Rightarrow> Inr p | (p, Some e) \<Rightarrow> Inl e)"
    by blast
  with c' have r: "create_parameters 60 6 12 ''bojowald'' = Inr (fst (bojowald_potential 60 6 12 ?q))"
    by (cases "bojowald_potential 60 6 12 ?q") simp
  from v n have n': "snd (bojowald_potential 60 6 (- 12) ?q) = None"
    by simp
  from v n d1 d2 have e': "fst (bojowald_potential 60 6 (- 12) zero_params)
       = fst (bojowald_potential 60 6 (- 12) ?q)"
    by blast
  from c' e r n' e' show ?thesis
    by blast
qed

text \<open>
  Claim C10 as first stated has every call overwrite all sixteen keys.
  \<open>daehnick_potential(-1.0, 6, 12, params)\<close> raises at \<open>math.sqrt(E)\<close> after six
  assignments: \<open>ri0\<close> keeps the value passed in, and two dictionaries that differ
  there still differ after the call.
\<close>

theorem daehnick_leaves_keys_unwritten:
  "snd (daehnick_potential (- 1) 6 12 zero_params) = Some ValueError
   \<and> snd (daehnick_potential (- 1) 6 12 (zero_params(''ri0'' \<mapsto> PyFloat 1))) = Some ValueError
   \<and> fst (daehnick_potential (- 1) 6 12 zero_params) ''ri0'' = Some (PyFloat 0)
   \<and> fst (daehnick_potential (- 1) 6 12 (zero_params(''ri0'' \<mapsto> PyFloat 1))) ''ri0'' = Some (PyFloat 1)"
  by (simp add: daehnick_sqrt_raises zero_params_def param_keys_def)

end
